theory Spec2Isabelle
  imports Complex_Main
begin

section \<open>The data quality validation engine of the Coventry DW pipeline\<close>

text \<open>
  A shallow embedding of \<^verbatim>\<open>src/data_quality/validator.py\<close>
  (class \<^verbatim>\<open>DataQualityValidator\<close>). Each method is a HOL function of the same
  name without the leading underscore, and each of its loops a recursive function.
  An exception is a value: a method that can raise returns \<open>pyerror + result\<close>.

  Python's \<^verbatim>\<open>float\<close> scores are idealised as \<^typ>\<open>real\<close>: every score the
  engine computes is a quotient of two counts or a literal such as \<^verbatim>\<open>0.95\<close>.
  What the engine gets from its collaborators (the schema manager, the pandas date
  parser, the clock, the quarantine store) is a field of the record \<open>env\<close>.
  The pandas operations the source applies to the frame itself (null tests, the
  comparison with a number, the duplicate marks, the types of an object column) are
  written out on the cells of the model.
\<close>

subsection \<open>Datasets\<close>

text \<open>
  A cell of a pandas \<^verbatim>\<open>DataFrame\<close>: \<open>Null\<close> stands for \<^verbatim>\<open>None\<close>, \<^verbatim>\<open>NaN\<close> and
  \<^verbatim>\<open>NaT\<close> (what \<^verbatim>\<open>notna()\<close> rejects), \<open>DateV\<close> holds a timestamp in seconds.
\<close>

datatype cell = Null | IntV int | FloatV real | StrV string | DateV int

datatype dtype = ObjectDtype | OtherDtype

text \<open>
  A frame has its column labels (\<^verbatim>\<open>df.columns\<close>, taken to be distinct), the dtype of
  each column, its row index (\<^verbatim>\<open>df.index\<close>: \<open>index df i\<close> is the label of the row
  at position \<open>i\<close>) and its rows in order; a row maps a column label to the cell it
  holds (only the labels of \<open>columns\<close> are ever read). A frame that was read from a
  file has the labels 0, 1, 2, \<dots>; a frame that lost rows since (the cleaning step
  drops duplicates without resetting the index) has gaps in its labels.
\<close>

record dataframe =
  columns :: "string list"
  dtypes :: "string \<Rightarrow> dtype"
  index :: "nat \<Rightarrow> int"
  rows :: "(string \<Rightarrow> cell) list"

definition len :: "dataframe \<Rightarrow> nat" where
  "len df = length (rows df)"

text \<open>\<^verbatim>\<open>df[column]\<close>: the values of one column, in row order.\<close>

definition col_values :: "dataframe \<Rightarrow> string \<Rightarrow> cell list" where
  "col_values df column = map (\<lambda>r. r column) (rows df)"

definition notna :: "cell \<Rightarrow> bool" where
  "notna c = (c \<noteq> Null)"

text \<open>\<^verbatim>\<open>.sum()\<close> of a boolean series: the number of \<^verbatim>\<open>True\<close> entries.\<close>

definition count_true :: "bool list \<Rightarrow> nat" where
  "count_true bs = length (filter (\<lambda>b. b) bs)"

text \<open>\<^verbatim>\<open>col.startswith('_')\<close>\<close>

fun startswith_underscore :: "string \<Rightarrow> bool" where
  "startswith_underscore [] = False"
| "startswith_underscore (c # cs) = (c = CHR ''_'')"

text \<open>\<^verbatim>\<open>passed_rows / total_rows if total_rows > 0 else 0\<close>\<close>

definition fraction :: "nat \<Rightarrow> nat \<Rightarrow> real" where
  "fraction passed_rows total_rows =
     (if total_rows > 0 then real passed_rows / real total_rows else 0)"

subsection \<open>Errors, rules, configuration and collaborators\<close>

datatype pyerror =
    KeyError string | TypeError | ValueError | ParserError | IndexingError | OSError
  | OtherError string

text \<open>
  A rule is a dictionary read from configuration; a key may be missing, so each key is
  an option. \<^verbatim>\<open>rule["name"]\<close> on a missing key raises \<^verbatim>\<open>KeyError\<close>.
\<close>

record rule =
  rule_name :: "string option"
  rule_column :: "string option"
  rule_check :: "string option"
  rule_value :: "real option"
  rule_min_date :: "cell option"
  rule_max_date :: "cell option"

text \<open>\<^verbatim>\<open>self.quality_config\<close>, read with \<^verbatim>\<open>.get(key, default)\<close>.\<close>

record quality_config =
  coverage_threshold :: "real option"
  rules :: "rule list option"

text \<open>What \<^verbatim>\<open>pd.to_datetime\<close> makes of one value.\<close>

datatype parsed = Timestamp int | NaT | Unparseable

text \<open>
  The collaborators of one validation call: the schema manager's
  \<^verbatim>\<open>validate_dataframe\<close> (it returns a verdict or raises), pandas' conversion of one
  value to a timestamp, the clock \<^verbatim>\<open>datetime.utcnow()\<close> in seconds, and whether
  writing the quarantine files raises.
\<close>

record env =
  validate_dataframe :: "dataframe \<Rightarrow> string \<Rightarrow> pyerror + bool"
  to_datetime :: "cell \<Rightarrow> parsed"
  utcnow :: int
  quarantine_write :: "pyerror option"

subsection \<open>Check results\<close>

datatype rule_failure = ColumnNotFound string | Raised pyerror

text \<open>
  The two shapes of an entry of \<^verbatim>\<open>rule_results\<close>: \<open>RuleError rule failure\<close> is
  \<^verbatim>\<open>{"rule", "passed": False, "error"}\<close>, and
  \<open>RuleScore rule passed score passed_rows total_rows\<close> is the scored entry.
\<close>

datatype rule_result =
    RuleError string rule_failure
  | RuleScore string bool real nat nat

record column_stat =
  completeness_of :: real
  non_null_count :: nat
  total_count :: nat

datatype pytype = TInt | TFloat | TStr | TTimestamp

record duplicate_check =
  duplicate_count :: nat
  duplicate_rate :: real
  dup_passed :: bool

record type_check =
  type_passed :: bool
  type_issues :: "(string \<times> pytype list) list"

datatype freshness_check =
    IngestionFreshness "real option" bool
  | DateFreshness string "int option" bool

datatype details =
    NoDetails
  | SchemaDetails
  | RuleResults "rule_result list"
  | ColumnCompleteness "(string \<times> column_stat) list"
  | ConsistencyChecks duplicate_check type_check
  | FreshnessChecks "freshness_check list"

record check_result =
  passed :: bool
  score :: real
  check_type :: string
  error :: "pyerror option"
  details :: details

subsection \<open>Business rules\<close>

text \<open>
  \<^verbatim>\<open>df[column] > value\<close>, one element: a null compares false, a number compares by
  value, and Python raises \<^verbatim>\<open>TypeError\<close> for a string or a timestamp against a number.
\<close>

fun gt_cell :: "cell \<Rightarrow> real \<Rightarrow> pyerror + bool" where
  "gt_cell Null v = Inr False"
| "gt_cell (IntV i) v = Inr (real_of_int i > v)"
| "gt_cell (FloatV x) v = Inr (x > v)"
| "gt_cell (StrV s) v = Inl TypeError"
| "gt_cell (DateV t) v = Inl TypeError"

fun series_gt :: "cell list \<Rightarrow> real \<Rightarrow> pyerror + bool list" where
  "series_gt [] v = Inr []"
| "series_gt (c # cs) v =
     (case gt_cell c v of
        Inl e \<Rightarrow> Inl e
      | Inr b \<Rightarrow> (case series_gt cs v of Inl e \<Rightarrow> Inl e | Inr bs \<Rightarrow> Inr (b # bs)))"

text \<open>
  \<^verbatim>\<open>pd.to_datetime(series, errors='coerce')\<close>: a value that does not parse becomes
  \<^verbatim>\<open>NaT\<close>. \<open>None\<close> is \<^verbatim>\<open>NaT\<close>.
\<close>

definition coerce_datetime :: "env \<Rightarrow> cell \<Rightarrow> int option" where
  "coerce_datetime e c =
     (case to_datetime e c of Timestamp t \<Rightarrow> Some t | NaT \<Rightarrow> None | Unparseable \<Rightarrow> None)"

text \<open>\<^verbatim>\<open>pd.to_datetime(x)\<close> with the default \<^verbatim>\<open>errors='raise'\<close>.\<close>

definition strict_datetime :: "env \<Rightarrow> cell \<Rightarrow> pyerror + int option" where
  "strict_datetime e c =
     (case to_datetime e c of
        Timestamp t \<Rightarrow> Inr (Some t) | NaT \<Rightarrow> Inr None | Unparseable \<Rightarrow> Inl ParserError)"

text \<open>
  \<^verbatim>\<open>(date_col >= min_date) & (date_col <= max_date)\<close>, one element: a comparison
  with \<^verbatim>\<open>NaT\<close> on either side is false.
\<close>

definition in_date_range :: "int option \<Rightarrow> int option \<Rightarrow> int option \<Rightarrow> bool" where
  "in_date_range min_date max_date d =
     (case d of
        None \<Rightarrow> False
      | Some t \<Rightarrow>
          (case min_date of None \<Rightarrow> False | Some lo \<Rightarrow> t \<ge> lo) \<and>
          (case max_date of None \<Rightarrow> False | Some hi \<Rightarrow> t \<le> hi))"

text \<open>
  The body of the \<^verbatim>\<open>try\<close> block of \<^verbatim>\<open>_validate_business_rules\<close>, up to the score:
  it returns \<open>(score, passed_rows, total_rows)\<close> or the exception raised.
\<close>

definition check_rule ::
  "env \<Rightarrow> dataframe \<Rightarrow> rule \<Rightarrow> string \<Rightarrow> string \<Rightarrow> pyerror + (real \<times> nat \<times> nat)" where
  "check_rule e df rule column ctype =
     (if ctype = ''not_null'' then
        (let passed_rows = count_true (map notna (col_values df column));
             total_rows = len df
         in Inr (fraction passed_rows total_rows, passed_rows, total_rows))
      else if ctype = ''greater_than'' then
        (case rule_value rule of
           None \<Rightarrow> Inl (KeyError ''value'')
         | Some v \<Rightarrow>
             (case series_gt (col_values df column) v of
                Inl err \<Rightarrow> Inl err
              | Inr bs \<Rightarrow>
                  (let passed_rows = count_true bs;
                       total_rows = len df
                   in Inr (fraction passed_rows total_rows, passed_rows, total_rows))))
      else if ctype = ''date_range'' then
        (case rule_min_date rule of
           None \<Rightarrow> Inl (KeyError ''min_date'')
         | Some lo_cell \<Rightarrow>
             (case strict_datetime e lo_cell of
                Inl err \<Rightarrow> Inl err
              | Inr min_date \<Rightarrow>
                  (case rule_max_date rule of
                     None \<Rightarrow> Inl (KeyError ''max_date'')
                   | Some hi_cell \<Rightarrow>
                       (case strict_datetime e hi_cell of
                          Inl err \<Rightarrow> Inl err
                        | Inr max_date \<Rightarrow>
                            (let date_col = map (coerce_datetime e) (col_values df column);
                                 passed_rows =
                                   count_true (map (in_date_range min_date max_date) date_col);
                                 total_rows = len df
                             in Inr (fraction passed_rows total_rows,
                                     passed_rows, total_rows))))))
      else Inr (0, 0, len df))"

text \<open>
  The loop \<^verbatim>\<open>for rule in rules\<close>, with its state \<open>(rule_results, total_score)\<close>. The
  three reads \<^verbatim>\<open>rule["name"]\<close>, \<^verbatim>\<open>rule["column"]\<close>, \<^verbatim>\<open>rule["check"]\<close> stand before
  the \<^verbatim>\<open>try\<close>: a missing key ends the loop with \<^verbatim>\<open>KeyError\<close>. An exception inside
  the \<^verbatim>\<open>try\<close> is caught: the rule gets an error entry and adds nothing to the total.
\<close>

fun rules_loop ::
  "env \<Rightarrow> dataframe \<Rightarrow> rule list \<Rightarrow> rule_result list \<times> real
     \<Rightarrow> pyerror + (rule_result list \<times> real)" where
  "rules_loop e df [] acc = Inr acc"
| "rules_loop e df (rule # rest) (rule_results, total_score) =
     (case rule_name rule of
        None \<Rightarrow> Inl (KeyError ''name'')
      | Some name \<Rightarrow>
     (case rule_column rule of
        None \<Rightarrow> Inl (KeyError ''column'')
      | Some column \<Rightarrow>
     (case rule_check rule of
        None \<Rightarrow> Inl (KeyError ''check'')
      | Some ctype \<Rightarrow>
          if column \<notin> set (columns df) then
            rules_loop e df rest
              (rule_results @ [RuleError name (ColumnNotFound column)], total_score)
          else
            (case check_rule e df rule column ctype of
               Inl err \<Rightarrow>
                 rules_loop e df rest
                   (rule_results @ [RuleError name (Raised err)], total_score)
             | Inr (s, passed_rows, total_rows) \<Rightarrow>
                 rules_loop e df rest
                   (rule_results @ [RuleScore name (s \<ge> 0.95) s passed_rows total_rows],
                    total_score + s)))))"

text \<open>\<^verbatim>\<open>self.quality_config.get("rules", [])\<close>\<close>

definition configured_rules :: "quality_config \<Rightarrow> rule list" where
  "configured_rules cfg = (case rules cfg of None \<Rightarrow> [] | Some l \<Rightarrow> l)"

definition validate_business_rules ::
  "env \<Rightarrow> quality_config \<Rightarrow> dataframe \<Rightarrow> pyerror + check_result" where
  "validate_business_rules e cfg df =
     (let rs = configured_rules cfg in
      case rules_loop e df rs ([], 0) of
        Inl err \<Rightarrow> Inl err
      | Inr (rule_results, total_score) \<Rightarrow>
          (let overall_score = (if rs \<noteq> [] then total_score / real (length rs) else 1.0);
               overall_passed = (overall_score \<ge> 0.95)
           in Inr \<lparr>passed = overall_passed, score = overall_score,
                   check_type = ''business_rules'', error = None,
                   details = RuleResults rule_results\<rparr>))"

subsection \<open>Schema\<close>

text \<open>
  \<^verbatim>\<open>_validate_schema\<close>: the whole body is inside \<^verbatim>\<open>try\<close>, so an exception of the
  schema manager becomes a failing result that carries the error.
\<close>

definition validate_schema :: "env \<Rightarrow> dataframe \<Rightarrow> string \<Rightarrow> check_result" where
  "validate_schema e df source_name =
     (case validate_dataframe e df source_name of
        Inr is_valid \<Rightarrow>
          \<lparr>passed = is_valid, score = (if is_valid then 1.0 else 0.0),
           check_type = ''schema_validation'', error = None, details = SchemaDetails\<rparr>
      | Inl err \<Rightarrow>
          \<lparr>passed = False, score = 0.0,
           check_type = ''schema_validation'', error = Some err, details = NoDetails\<rparr>)"

subsection \<open>Completeness\<close>

definition business_columns :: "dataframe \<Rightarrow> string list" where
  "business_columns df = filter (\<lambda>col. \<not> startswith_underscore col) (columns df)"

text \<open>
  The loop \<^verbatim>\<open>for column in business_columns\<close> with its state
  \<open>(completeness_stats, total_completeness)\<close>.
\<close>

fun completeness_loop ::
  "dataframe \<Rightarrow> string list \<Rightarrow> (string \<times> column_stat) list \<times> real
     \<Rightarrow> (string \<times> column_stat) list \<times> real" where
  "completeness_loop df [] acc = acc"
| "completeness_loop df (column # rest) (completeness_stats, total_completeness) =
     (let nn = count_true (map notna (col_values df column));
          tc = len df;
          completeness = fraction nn tc
      in completeness_loop df rest
           (completeness_stats @
              [(column, \<lparr>completeness_of = completeness, non_null_count = nn,
                         total_count = tc\<rparr>)],
            total_completeness + completeness))"

definition validate_completeness :: "dataframe \<Rightarrow> check_result" where
  "validate_completeness df =
     (let bcols = business_columns df;
          (completeness_stats, total_completeness) = completeness_loop df bcols ([], 0);
          overall_completeness =
            (if bcols \<noteq> [] then total_completeness / real (length bcols) else 1.0)
      in \<lparr>passed = (overall_completeness \<ge> 0.9), score = overall_completeness,
          check_type = ''completeness'', error = None,
          details = ColumnCompleteness completeness_stats\<rparr>)"

subsection \<open>Consistency\<close>

text \<open>
  \<^verbatim>\<open>df.duplicated(subset=...)\<close> marks a row that equals an earlier row on the subset.
  pandas returns an empty series for a frame with no rows or no columns; otherwise it
  factorises the columns of the subset and unpacks the outcome into two lists, which
  raises \<^verbatim>\<open>ValueError\<close> when the subset is empty. The source calls it outside any
  \<^verbatim>\<open>try\<close>.
\<close>

fun mark_duplicates :: "'a list \<Rightarrow> 'a list \<Rightarrow> bool list" where
  "mark_duplicates seen [] = []"
| "mark_duplicates seen (x # xs) = (x \<in> set seen) # mark_duplicates (x # seen) xs"

definition duplicated :: "dataframe \<Rightarrow> string list \<Rightarrow> pyerror + bool list" where
  "duplicated df subset_cols =
     (if rows df = [] \<or> columns df = [] then Inr []
      else if subset_cols = [] then Inl ValueError
      else Inr (mark_duplicates [] (map (\<lambda>r. map r subset_cols) (rows df))))"

fun type_of_cell :: "cell \<Rightarrow> pytype" where
  "type_of_cell (IntV i) = TInt"
| "type_of_cell (FloatV x) = TFloat"
| "type_of_cell (StrV s) = TStr"
| "type_of_cell (DateV t) = TTimestamp"
| "type_of_cell Null = TFloat"

text \<open>\<^verbatim>\<open>.unique()\<close>: the distinct values in order of first appearance.\<close>

fun unique :: "'a list \<Rightarrow> 'a list" where
  "unique [] = []"
| "unique (x # xs) = x # unique (filter (\<lambda>y. y \<noteq> x) xs)"

text \<open>\<^verbatim>\<open>df[column].dropna().apply(type).unique()\<close>\<close>

definition sample_types :: "dataframe \<Rightarrow> string \<Rightarrow> pytype list" where
  "sample_types df column = unique (map type_of_cell (filter notna (col_values df column)))"

text \<open>
  The loop \<^verbatim>\<open>for column in df.columns\<close> of the type check, with its state
  \<open>(type_consistency, type_issues)\<close>.
\<close>

fun type_loop ::
  "dataframe \<Rightarrow> string list \<Rightarrow> bool \<times> (string \<times> pytype list) list
     \<Rightarrow> bool \<times> (string \<times> pytype list) list" where
  "type_loop df [] acc = acc"
| "type_loop df (column # rest) (type_consistency, issues) =
     (if startswith_underscore column then type_loop df rest (type_consistency, issues)
      else if dtypes df column = ObjectDtype then
        (let st = sample_types df column in
         if length st > 1 then type_loop df rest (False, issues @ [(column, st)])
         else type_loop df rest (type_consistency, issues))
      else type_loop df rest (type_consistency, issues))"

text \<open>
  \<^verbatim>\<open>_validate_consistency\<close> after the duplicate marks are known: the two checks and
  their score.
\<close>

definition consistency_result :: "dataframe \<Rightarrow> bool list \<Rightarrow> check_result" where
  "consistency_result df dups =
     (let dcount = count_true dups;
          drate = (if len df > 0 then real dcount / real (len df) else 0);
          dup = \<lparr>duplicate_count = dcount, duplicate_rate = drate,
                 dup_passed = (drate < 0.01)\<rparr>;
          (type_consistency, issues) = type_loop df (columns df) (True, []);
          tc = \<lparr>type_passed = type_consistency, type_issues = issues\<rparr>;
          consistency_checks = [dup_passed dup, type_passed tc];
          passed_checks = count_true consistency_checks;
          consistency_score =
            (if consistency_checks \<noteq> []
             then real passed_checks / real (length consistency_checks) else 1.0)
      in \<lparr>passed = (consistency_score \<ge> 0.9), score = consistency_score,
          check_type = ''consistency'', error = None,
          details = ConsistencyChecks dup tc\<rparr>)"

definition validate_consistency :: "dataframe \<Rightarrow> pyerror + check_result" where
  "validate_consistency df =
     (case duplicated df (business_columns df) of
        Inl err \<Rightarrow> Inl err
      | Inr dups \<Rightarrow> Inr (consistency_result df dups))"

subsection \<open>Freshness\<close>

text \<open>
  \<^verbatim>\<open>pd.to_datetime(series)\<close> with \<^verbatim>\<open>errors='raise'\<close>: the first value that does
  not parse raises.
\<close>

fun series_to_datetime :: "env \<Rightarrow> cell list \<Rightarrow> pyerror + int option list" where
  "series_to_datetime e [] = Inr []"
| "series_to_datetime e (c # cs) =
     (case strict_datetime e c of
        Inl err \<Rightarrow> Inl err
      | Inr d \<Rightarrow>
          (case series_to_datetime e cs of Inl err \<Rightarrow> Inl err | Inr ds \<Rightarrow> Inr (d # ds)))"

text \<open>\<^verbatim>\<open>.max()\<close> of a datetime series skips \<^verbatim>\<open>NaT\<close>; with nothing left it is \<^verbatim>\<open>NaT\<close>.\<close>

fun series_max :: "int option list \<Rightarrow> int option" where
  "series_max [] = None"
| "series_max (None # ds) = series_max ds"
| "series_max (Some t # ds) =
     (case series_max ds of None \<Rightarrow> Some t | Some m \<Rightarrow> Some (max t m))"

text \<open>
  A comparison with \<^verbatim>\<open>nan\<close> is false, so a check whose latest date is \<^verbatim>\<open>NaT\<close>
  does not pass.
\<close>

definition ingestion_check :: "env \<Rightarrow> int option \<Rightarrow> freshness_check" where
  "ingestion_check e latest_ingestion =
     (case latest_ingestion of
        None \<Rightarrow> IngestionFreshness None False
      | Some t \<Rightarrow>
          (let hours_since_ingestion = real_of_int (utcnow e - t) / 3600
           in IngestionFreshness (Some hours_since_ingestion) (hours_since_ingestion < 24)))"

definition date_check :: "env \<Rightarrow> string \<Rightarrow> int option \<Rightarrow> freshness_check" where
  "date_check e date_col latest_business_date =
     (case latest_business_date of
        None \<Rightarrow> DateFreshness date_col None False
      | Some t \<Rightarrow>
          (let days_since_business_date = (utcnow e - t) div 86400
           in DateFreshness date_col (Some days_since_business_date)
                (days_since_business_date < 7)))"

text \<open>\<^verbatim>\<open>col.lower()\<close> on ASCII letters, and \<^verbatim>\<open>'date' in s\<close>.\<close>

definition lower_char :: "char \<Rightarrow> char" where
  "lower_char c =
     (let n = (of_char c :: nat) in if 65 \<le> n \<and> n \<le> 90 then char_of (n + 32) else c)"

definition lower :: "string \<Rightarrow> string" where
  "lower s = map lower_char s"

fun startswith :: "string \<Rightarrow> string \<Rightarrow> bool" where
  "startswith s [] = True"
| "startswith [] (p # ps) = False"
| "startswith (c # cs) (p # ps) = (c = p \<and> startswith cs ps)"

fun contains :: "string \<Rightarrow> string \<Rightarrow> bool" where
  "contains [] sub = (sub = [])"
| "contains (c # cs) sub = (startswith (c # cs) sub \<or> contains cs sub)"

definition date_columns :: "dataframe \<Rightarrow> string list" where
  "date_columns df =
     filter (\<lambda>col. contains (lower col) ''date'' \<and> \<not> startswith_underscore col) (columns df)"

text \<open>
  The loop \<^verbatim>\<open>for date_col in date_columns\<close>: a column that does not parse is skipped
  (\<^verbatim>\<open>except Exception: continue\<close>).
\<close>

fun date_loop :: "env \<Rightarrow> dataframe \<Rightarrow> string list \<Rightarrow> freshness_check list
     \<Rightarrow> freshness_check list" where
  "date_loop e df [] freshness_checks = freshness_checks"
| "date_loop e df (date_col # rest) freshness_checks =
     (case series_to_datetime e (col_values df date_col) of
        Inl err \<Rightarrow> date_loop e df rest freshness_checks
      | Inr ds \<Rightarrow>
          date_loop e df rest (freshness_checks @ [date_check e date_col (series_max ds)]))"

fun check_passed :: "freshness_check \<Rightarrow> bool" where
  "check_passed (IngestionFreshness h p) = p"
| "check_passed (DateFreshness c d p) = p"

text \<open>
  \<^verbatim>\<open>_validate_freshness\<close> in its three parts. The conversion of
  \<^verbatim>\<open>_ingestion_timestamp\<close> is outside any \<^verbatim>\<open>try\<close>, so a value that does not
  parse raises out of the method.
\<close>

definition ingestion_freshness :: "env \<Rightarrow> dataframe \<Rightarrow> pyerror + freshness_check list" where
  "ingestion_freshness e df =
     (if ''_ingestion_timestamp'' \<in> set (columns df) then
        (case series_to_datetime e (col_values df ''_ingestion_timestamp'') of
           Inl err \<Rightarrow> Inl err
         | Inr ds \<Rightarrow> Inr [ingestion_check e (series_max ds)])
      else Inr [])"

definition freshness_result :: "freshness_check list \<Rightarrow> check_result" where
  "freshness_result freshness_checks =
     (if freshness_checks = [] then
        \<lparr>passed = True, score = 1.0, check_type = ''freshness'', error = None,
         details = FreshnessChecks freshness_checks\<rparr>
      else
        (let passed_checks = count_true (map check_passed freshness_checks);
             freshness_score = real passed_checks / real (length freshness_checks)
         in \<lparr>passed = (freshness_score \<ge> 0.8), score = freshness_score,
             check_type = ''freshness'', error = None,
             details = FreshnessChecks freshness_checks\<rparr>))"

definition validate_freshness :: "env \<Rightarrow> dataframe \<Rightarrow> pyerror + check_result" where
  "validate_freshness e df =
     (case ingestion_freshness e df of
        Inl err \<Rightarrow> Inl err
      | Inr checks0 \<Rightarrow> Inr (freshness_result (date_loop e df (date_columns df) checks0)))"

subsection \<open>The aggregator and the quarantine\<close>

record checks =
  schema_validation :: check_result
  business_rules :: check_result
  completeness :: check_result
  consistency :: check_result
  freshness :: check_result

text \<open>
  The dictionary \<^verbatim>\<open>validation_results\<close>; its key \<^verbatim>\<open>"passed"\<close> is the field
  \<open>validation_passed\<close> (the name \<open>passed\<close> is the field of a check result). The
  timestamp is left out.
\<close>

record validation_results =
  source_name :: string
  total_rows :: nat
  checks :: checks
  overall_score :: real
  validation_passed :: bool
  quarantined_rows :: nat

text \<open>
  \<^verbatim>\<open>df[mask]\<close> with a boolean series built by \<^verbatim>\<open>pd.Series([...] * len(df))\<close>: the
  mask has the labels 0 to \<^verbatim>\<open>len(df) - 1\<close>, and pandas aligns it with the index of the
  frame. A row is kept when the mask is true at the row's label; a row label that the
  mask does not have raises \<^verbatim>\<open>IndexingError\<close>.
\<close>

definition index_aligned :: "dataframe \<Rightarrow> bool" where
  "index_aligned df =
     list_all (\<lambda>i. 0 \<le> index df i \<and> index df i < int (len df)) [0..<len df]"

definition boolean_index ::
  "dataframe \<Rightarrow> bool list \<Rightarrow> pyerror + (string \<Rightarrow> cell) list" where
  "boolean_index df key =
     (if \<not> index_aligned df then Inl IndexingError
      else
        (let aligned = map (\<lambda>i. key ! nat (index df i)) [0..<len df]
         in Inr (map fst (filter snd (zip (rows df) aligned)))))"

text \<open>
  \<^verbatim>\<open>_quarantine_bad_data\<close>: the mask is all false, and all true when the schema check
  did not pass; the loop over failed business rules only logs. The rows under the mask
  are written when there is at least one, and their number is returned.
\<close>

definition quarantine_bad_data ::
  "env \<Rightarrow> dataframe \<Rightarrow> validation_results \<Rightarrow> string \<Rightarrow> pyerror + nat" where
  "quarantine_bad_data e df vr src =
     (let quarantine_mask = replicate (len df) False;
          schema_result = schema_validation (checks vr);
          quarantine_mask =
            (if \<not> passed schema_result then replicate (len df) True else quarantine_mask)
      in case boolean_index df quarantine_mask of
           Inl err \<Rightarrow> Inl err
         | Inr quarantined_df \<Rightarrow>
             if length quarantined_df > 0 then
               (case quarantine_write e of
                  Some err \<Rightarrow> Inl err
                | None \<Rightarrow> Inr (length quarantined_df))
             else Inr (length quarantined_df))"

definition validate_data ::
  "env \<Rightarrow> quality_config \<Rightarrow> dataframe \<Rightarrow> string \<Rightarrow> pyerror + validation_results" where
  "validate_data e cfg df src =
     (let schema_r = validate_schema e df src in
      case validate_business_rules e cfg df of
        Inl err \<Rightarrow> Inl err
      | Inr business_r \<Rightarrow>
     (let completeness_r = validate_completeness df in
      case validate_consistency df of
        Inl err \<Rightarrow> Inl err
      | Inr consistency_r \<Rightarrow>
     (case validate_freshness e df of
        Inl err \<Rightarrow> Inl err
      | Inr freshness_r \<Rightarrow>
     (let check_scores = [score schema_r, score business_r,
                          score completeness_r, score consistency_r,
                          score freshness_r];
          overall = sum_list check_scores / real (length check_scores);
          threshold = (case coverage_threshold cfg of None \<Rightarrow> 0.95 | Some t \<Rightarrow> t);
          vr = \<lparr>source_name = src, total_rows = len df,
                checks = \<lparr>schema_validation = schema_r,
                           business_rules = business_r,
                           completeness = completeness_r,
                           consistency = consistency_r,
                           freshness = freshness_r\<rparr>,
                overall_score = overall,
                validation_passed = (overall \<ge> threshold),
                quarantined_rows = 0\<rparr>
      in if \<not> validation_passed vr then
           (case quarantine_bad_data e df vr src of
              Inl err \<Rightarrow> Inl err
            | Inr q \<Rightarrow> Inr (vr\<lparr>quarantined_rows := q\<rparr>))
         else Inr vr))))"

subsection \<open>Notions the properties are stated with\<close>

text \<open>The threshold \<^verbatim>\<open>validate_data\<close> reads: \<^verbatim>\<open>.get("coverage_threshold", 0.95)\<close>.\<close>

definition threshold_of :: "quality_config \<Rightarrow> real" where
  "threshold_of cfg = (case coverage_threshold cfg of None \<Rightarrow> 0.95 | Some t \<Rightarrow> t)"

text \<open>The arithmetic mean of a list of scores.\<close>

definition mean :: "real list \<Rightarrow> real" where
  "mean xs = sum_list xs / real (length xs)"

text \<open>
  The non-null ratio of one column: the share of rows whose value is not null, and 0
  for a frame with no rows (the guard of the source).
\<close>

definition non_null_ratio :: "dataframe \<Rightarrow> string \<Rightarrow> real" where
  "non_null_ratio df column =
     (if len df = 0 then 0
      else real (length (filter (\<lambda>c. c \<noteq> Null) (col_values df column))) / real (len df))"

text \<open>No business column holds a null.\<close>

definition all_non_null :: "dataframe \<Rightarrow> bool" where
  "all_non_null df =
     list_all (\<lambda>column. list_all (\<lambda>c. c \<noteq> Null) (col_values df column)) (business_columns df)"

text \<open>A rule dictionary that has the three keys the loop reads before its \<^verbatim>\<open>try\<close>.\<close>

definition well_keyed :: "rule \<Rightarrow> bool" where
  "well_keyed r = (rule_name r \<noteq> None \<and> rule_column r \<noteq> None \<and> rule_check r \<noteq> None)"

text \<open>
  Two frames with the same labels and the same number of rows that agree on every
  business column (values and dtype); their metadata columns are unconstrained.
\<close>

definition same_business_data :: "dataframe \<Rightarrow> dataframe \<Rightarrow> bool" where
  "same_business_data df df' =
     (columns df' = columns df \<and> len df' = len df \<and>
      (\<forall>column \<in> set (columns df). \<not> startswith_underscore column \<longrightarrow>
         col_values df' column = col_values df column \<and> dtypes df' column = dtypes df column))"

text \<open>No rule names a metadata column.\<close>

definition rules_on_business_columns :: "rule list \<Rightarrow> bool" where
  "rules_on_business_columns rs =
     list_all (\<lambda>r. case rule_column r of None \<Rightarrow> True
                             | Some column \<Rightarrow> \<not> startswith_underscore column) rs"

text \<open>The pass flag of a scored rule entry is its score against the fixed 0.95.\<close>

fun flag_matches_score :: "rule_result \<Rightarrow> bool" where
  "flag_matches_score (RuleScore n p s a b) = (p = (s \<ge> 0.95))"
| "flag_matches_score (RuleError n f) = True"

text \<open>
  The \<^verbatim>\<open>greater_than\<close> score as the specification words it: the fraction of rows
  whose value is strictly greater than the rule's value, where a row holding a null or
  a non-numeric value fails the predicate.
\<close>

fun strictly_greater :: "real \<Rightarrow> cell \<Rightarrow> bool" where
  "strictly_greater v (IntV i) = (real_of_int i > v)"
| "strictly_greater v (FloatV x) = (x > v)"
| "strictly_greater v c = False"

definition spec_greater_than_score :: "dataframe \<Rightarrow> string \<Rightarrow> real \<Rightarrow> real" where
  "spec_greater_than_score df column v =
     fraction (length (filter (strictly_greater v) (col_values df column))) (len df)"

fun numeric_or_null :: "cell \<Rightarrow> bool" where
  "numeric_or_null (StrV s) = False"
| "numeric_or_null (DateV t) = False"
| "numeric_or_null c = True"

subsection \<open>Sample inputs\<close>

definition env_ok :: env where
  "env_ok =
     \<lparr>validate_dataframe = (\<lambda>df src. Inr True),
      to_datetime = (\<lambda>c. case c of DateV t \<Rightarrow> Timestamp t | Null \<Rightarrow> NaT | _ \<Rightarrow> Unparseable),
      utcnow = 0, quarantine_write = None\<rparr>"

definition env_schema_invalid :: env where
  "env_schema_invalid = env_ok\<lparr>validate_dataframe := (\<lambda>df src. Inr False)\<rparr>"

definition row_amount :: "cell \<Rightarrow> string \<Rightarrow> cell" where
  "row_amount v = (\<lambda>column. if column = ''amount'' then v else Null)"

text \<open>A frame with the single column \<^verbatim>\<open>amount\<close>.\<close>

definition amounts :: "cell list \<Rightarrow> dataframe" where
  "amounts vs = \<lparr>columns = [''amount''], dtypes = (\<lambda>column. OtherDtype),
                 index = int, rows = map row_amount vs\<rparr>"

definition row_meta :: "cell \<Rightarrow> cell \<Rightarrow> string \<Rightarrow> cell" where
  "row_meta a m =
     (\<lambda>column. if column = ''amount'' then a else if column = ''_m'' then m else Null)"

text \<open>A frame with the business column \<^verbatim>\<open>amount\<close> and the metadata column \<^verbatim>\<open>_m\<close>.\<close>

definition df_meta :: "cell \<Rightarrow> cell \<Rightarrow> dataframe" where
  "df_meta m1 m2 = \<lparr>columns = [''amount'', ''_m''], dtypes = (\<lambda>column. ObjectDtype),
                    index = int, rows = [row_meta (IntV 1) m1, row_meta (IntV 2) m2]\<rparr>"

definition mk_rule :: "string \<Rightarrow> string \<Rightarrow> string \<Rightarrow> real option \<Rightarrow> rule" where
  "mk_rule n column ctype v =
     \<lparr>rule_name = Some n, rule_column = Some column, rule_check = Some ctype,
      rule_value = v, rule_min_date = None, rule_max_date = None\<rparr>"

definition amount_not_null :: rule where
  "amount_not_null = mk_rule ''amount_not_null'' ''amount'' ''not_null'' None"

definition amount_positive :: rule where
  "amount_positive = mk_rule ''amount_positive'' ''amount'' ''greater_than'' (Some 5)"

definition amount_large :: rule where
  "amount_large = mk_rule ''amount_large'' ''amount'' ''greater_than'' (Some 100)"

definition meta_not_null :: rule where
  "meta_not_null = mk_rule ''meta_not_null'' ''_m'' ''not_null'' None"

text \<open>A rule dictionary without the key \<^verbatim>\<open>name\<close>.\<close>

definition nameless_rule :: rule where
  "nameless_rule = amount_not_null\<lparr>rule_name := None\<rparr>"

definition config :: "real option \<Rightarrow> rule list \<Rightarrow> quality_config" where
  "config t rs = \<lparr>coverage_threshold = t, rules = Some rs\<rparr>"

text \<open>A frame of 100 rows whose column \<^verbatim>\<open>amount\<close> holds the given number of nulls.\<close>

definition hundred_amounts :: "nat \<Rightarrow> dataframe" where
  "hundred_amounts nulls = amounts (replicate (100 - nulls) (IntV 1) @ replicate nulls Null)"

text \<open>A schema manager that raises.\<close>

definition env_schema_raises :: env where
  "env_schema_raises =
     env_ok\<lparr>validate_dataframe := (\<lambda>df src. Inl (OtherError ''schema file unreadable''))\<rparr>"

text \<open>A one-row frame whose column \<^verbatim>\<open>txn_date\<close> holds text that is no date.\<close>

definition row_tx :: "cell \<Rightarrow> cell \<Rightarrow> string \<Rightarrow> cell" where
  "row_tx a d =
     (\<lambda>column. if column = ''amount'' then a else if column = ''txn_date'' then d else Null)"

definition df_tx :: dataframe where
  "df_tx = \<lparr>columns = [''amount'', ''txn_date''], dtypes = (\<lambda>column. ObjectDtype),
            index = int, rows = [row_tx (IntV 10) (StrV ''not a date'')]\<rparr>"

text \<open>A \<^verbatim>\<open>greater_than\<close> rule without the key \<^verbatim>\<open>value\<close>.\<close>

definition amount_no_value :: rule where
  "amount_no_value = mk_rule ''amount_min'' ''amount'' ''greater_than'' None"

text \<open>
  The two-row frame of \<^verbatim>\<open>amount\<close> as it is after rows between and after them were
  dropped: its row labels are 0 and 2.
\<close>

definition gap_frame :: dataframe where
  "gap_frame = (amounts [IntV 10, IntV 20])\<lparr>index := (\<lambda>i. 2 * int i)\<rparr>"

text \<open>A one-row frame whose \<^verbatim>\<open>_ingestion_timestamp\<close> holds text that is no date.\<close>

definition row_ingested :: "cell \<Rightarrow> cell \<Rightarrow> string \<Rightarrow> cell" where
  "row_ingested a ts =
     (\<lambda>column. if column = ''amount'' then a
               else if column = ''_ingestion_timestamp'' then ts else Null)"

definition df_ingested :: dataframe where
  "df_ingested = \<lparr>columns = [''amount'', ''_ingestion_timestamp''],
                  dtypes = (\<lambda>column. ObjectDtype), index = int,
                  rows = [row_ingested (IntV 10) (StrV ''yesterday evening'')]\<rparr>"

text \<open>A rule on a column that no sample frame has.\<close>

definition ghost_rule :: rule where
  "ghost_rule = mk_rule ''ghost_not_null'' ''ghost'' ''not_null'' None"

section \<open>Properties\<close>

subsection \<open>Counting and fractions\<close>

lemma count_true_le: "count_true bs \<le> length bs"
  by (simp add: count_true_def)

lemma count_true_notna:
  "count_true (map notna xs) = length (filter (\<lambda>c. c \<noteq> Null) xs)"
  by (simp add: count_true_def notna_def filter_map comp_def)

lemma fraction_bounds: "p \<le> n \<Longrightarrow> 0 \<le> fraction p n \<and> fraction p n \<le> 1"
  by (simp add: fraction_def)

lemma fraction_count_true:
  "length bs = n \<Longrightarrow> 0 \<le> fraction (count_true bs) n \<and> fraction (count_true bs) n \<le> 1"
  using count_true_le [of bs] fraction_bounds by blast

lemma length_col_values: "length (col_values df c) = len df"
  by (simp add: col_values_def len_def)

lemma fraction_notna:
  "fraction (count_true (map notna (col_values df c))) (len df) = non_null_ratio df c"
  by (simp add: fraction_def non_null_ratio_def count_true_notna)

lemma non_null_ratio_bounds: "0 \<le> non_null_ratio df c \<and> non_null_ratio df c \<le> 1"
  unfolding fraction_notna [symmetric]
  by (rule fraction_count_true) (simp add: length_col_values)

subsection \<open>Every check score lies between 0 and 1\<close>

lemma series_gt_length: "series_gt cs v = Inr bs \<Longrightarrow> length bs = length cs"
  by (induction cs arbitrary: bs) (auto split: sum.splits)

lemma check_rule_bounds:
  assumes "check_rule e df rule column ctype = Inr (s, p, n)"
  shows "0 \<le> s \<and> s \<le> 1"
proof -
  have nn: "0 \<le> fraction (count_true bs) (len df) \<and> fraction (count_true bs) (len df) \<le> 1"
    if "length bs = len df" for bs
    using that by (rule fraction_count_true)
  show ?thesis
    using assms
    by (auto simp: check_rule_def Let_def length_col_values
        split: if_splits option.splits sum.splits
        dest!: series_gt_length
        intro: nn [THEN conjunct1] nn [THEN conjunct2])
qed

lemma rules_loop_bounds:
  "rules_loop e df rs (rr, tot) = Inr (rr', tot') \<Longrightarrow>
     tot \<le> tot' \<and> tot' \<le> tot + real (length rs) \<and> length rr' = length rr + length rs"
proof (induction rs arbitrary: rr tot)
  case Nil
  then show ?case by simp
next
  case (Cons r rs)
  then show ?case
    by (fastforce split: option.splits if_splits sum.splits prod.splits
        dest: check_rule_bounds)
qed

lemma business_score_bounds:
  assumes "validate_business_rules e cfg df = Inr r"
  shows "0 \<le> score r \<and> score r \<le> 1"
proof -
  define rs where "rs = configured_rules cfg"
  from assms obtain rr tot where loop: "rules_loop e df rs ([], 0) = Inr (rr, tot)"
    and r: "score r = (if rs \<noteq> [] then tot / real (length rs) else 1)"
    by (auto simp: validate_business_rules_def Let_def rs_def split: sum.splits prod.splits)
  from rules_loop_bounds [OF loop] have "0 \<le> tot" "tot \<le> real (length rs)" by simp_all
  then show ?thesis
    by (cases "rs = []") (simp_all add: r divide_le_eq)
qed

lemma completeness_loop_total:
  "snd (completeness_loop df cs (st, tot)) = tot + sum_list (map (non_null_ratio df) cs)"
  by (induction cs arbitrary: st tot) (simp_all add: Let_def fraction_notna)

lemma sum_list_ratio_bounds:
  "0 \<le> sum_list (map (non_null_ratio df) cs) \<and>
   sum_list (map (non_null_ratio df) cs) \<le> real (length cs)"
proof (induction cs)
  case Nil
  then show ?case by simp
next
  case (Cons c cs)
  with non_null_ratio_bounds [of df c] show ?case by simp
qed

lemma completeness_score:
  "score (validate_completeness df) =
     (if business_columns df \<noteq> []
      then sum_list (map (non_null_ratio df) (business_columns df)) /
           real (length (business_columns df))
      else 1)"
proof -
  have "snd (completeness_loop df (business_columns df) ([], 0)) =
          sum_list (map (non_null_ratio df) (business_columns df))"
    by (simp add: completeness_loop_total)
  then show ?thesis
    by (cases "completeness_loop df (business_columns df) ([], 0)")
      (simp add: validate_completeness_def Let_def)
qed

lemma completeness_passed:
  "passed (validate_completeness df) = (score (validate_completeness df) \<ge> 0.9)"
  by (cases "completeness_loop df (business_columns df) ([], 0)")
    (simp add: validate_completeness_def Let_def)

lemma completeness_score_bounds:
  "0 \<le> score (validate_completeness df) \<and> score (validate_completeness df) \<le> 1"
  using sum_list_ratio_bounds [of df "business_columns df"]
  by (simp add: completeness_score divide_le_eq)

lemma consistency_score_cases: "score (consistency_result df dups) \<in> {0, 1/2, 1}"
  by (simp add: consistency_result_def Let_def count_true_def split: prod.splits)

lemma consistency_score_bounds:
  assumes "validate_consistency df = Inr r"
  shows "0 \<le> score r \<and> score r \<le> 1"
proof -
  from assms obtain dups where "r = consistency_result df dups"
    by (auto simp: validate_consistency_def split: sum.splits)
  with consistency_score_cases [of df dups] show ?thesis by auto
qed

lemma freshness_result_bounds:
  "0 \<le> score (freshness_result fc) \<and> score (freshness_result fc) \<le> 1"
  using count_true_le [of "map check_passed fc"]
  by (simp add: freshness_result_def Let_def divide_le_eq)

lemma freshness_score_bounds:
  assumes "validate_freshness e df = Inr r"
  shows "0 \<le> score r \<and> score r \<le> 1"
  using assms freshness_result_bounds
  by (auto simp: validate_freshness_def split: sum.splits)

lemma schema_score_cases: "score (validate_schema e df src) \<in> {0, 1}"
  by (simp add: validate_schema_def split: sum.splits)

subsection \<open>The quarantine mask\<close>

lemma filter_mask_False: "filter snd (zip xs (replicate n False)) = []"
  by (auto simp: filter_empty_conv dest!: set_zip_rightD)

lemma filter_mask_True:
  "filter snd (zip xs (replicate n True)) = zip xs (replicate n True)"
  by (auto simp: filter_id_conv dest!: set_zip_rightD)

lemma aligned_replicate:
  assumes "index_aligned df"
  shows "map (\<lambda>i. replicate (len df) b ! nat (index df i)) [0..<len df] =
           replicate (len df) b"
proof (rule nth_equalityI)
  show "length (map (\<lambda>i. replicate (len df) b ! nat (index df i)) [0..<len df]) =
          length (replicate (len df) b)"
    by simp
next
  fix i assume "i < length (map (\<lambda>i. replicate (len df) b ! nat (index df i)) [0..<len df])"
  then have i: "i < len df" by simp
  with assms have "0 \<le> index df i \<and> index df i < int (len df)"
    by (simp add: index_aligned_def list_all_iff)
  then have "nat (index df i) < len df" by linarith
  with i show "map (\<lambda>i. replicate (len df) b ! nat (index df i)) [0..<len df] ! i =
      replicate (len df) b ! i"
    by simp
qed

lemma boolean_index_replicate:
  "boolean_index df (replicate (len df) b) =
     (if \<not> index_aligned df then Inl IndexingError
      else Inr (if b then rows df else []))"
proof (cases "index_aligned df")
  case False
  then show ?thesis by (simp add: boolean_index_def)
next
  case True
  have "map fst (filter snd (zip (rows df) (replicate (len df) b))) =
          (if b then rows df else [])"
    by (simp add: filter_mask_False filter_mask_True len_def)
  with True show ?thesis
    by (simp add: boolean_index_def Let_def aligned_replicate [OF True])
qed

lemma quarantine_bad_data_eq:
  "quarantine_bad_data e df vr src =
     (if \<not> index_aligned df then Inl IndexingError
      else if passed (schema_validation (checks vr)) \<or> rows df = [] then Inr 0
      else (case quarantine_write e of Some err \<Rightarrow> Inl err | None \<Rightarrow> Inr (len df)))"
proof -
  have q: "quarantine_bad_data e df vr src =
      (case boolean_index df (replicate (len df) (\<not> passed (schema_validation (checks vr)))) of
         Inl err \<Rightarrow> Inl err
       | Inr quarantined_df \<Rightarrow>
           if length quarantined_df > 0 then
             (case quarantine_write e of
                Some err \<Rightarrow> Inl err
              | None \<Rightarrow> Inr (length quarantined_df))
           else Inr (length quarantined_df))"
    by (simp add: quarantine_bad_data_def Let_def)
  show ?thesis
    unfolding q boolean_index_replicate
    by (cases "rows df = []") (auto simp: len_def split: option.splits)
qed

lemma quarantine_count:
  assumes "quarantine_bad_data e df vr src = Inr q"
  shows "q = (if passed (schema_validation (checks vr)) then 0 else len df)"
  using assms
  by (auto simp: quarantine_bad_data_eq len_def split: if_splits option.splits)

lemma quarantine_returns:
  "index_aligned df \<Longrightarrow> quarantine_write e = None \<Longrightarrow>
     quarantine_bad_data e df vr src =
       Inr (if passed (schema_validation (checks vr)) then 0 else len df)"
  by (auto simp: quarantine_bad_data_eq len_def)

subsection \<open>What a returned validation result is made of\<close>

lemma validate_data_unfold:
  assumes b: "validate_business_rules e cfg df = Inr b"
    and k: "validate_consistency df = Inr k"
    and f: "validate_freshness e df = Inr f"
  obtains vr where
    "vr = \<lparr>source_name = src, total_rows = len df,
       checks = \<lparr>schema_validation = validate_schema e df src, business_rules = b,
                  completeness = validate_completeness df,
                  consistency = k, freshness = f\<rparr>,
       overall_score =
         (score (validate_schema e df src) + score b + score (validate_completeness df) +
          score k + score f) / 5,
       validation_passed =
         ((score (validate_schema e df src) + score b + score (validate_completeness df) +
           score k + score f) / 5 \<ge> threshold_of cfg),
       quarantined_rows = 0\<rparr>"
    "validate_data e cfg df src =
      (if \<not> validation_passed vr then
         (case quarantine_bad_data e df vr src of
            Inl err \<Rightarrow> Inl err
          | Inr q \<Rightarrow> Inr (vr\<lparr>quarantined_rows := q\<rparr>))
       else Inr vr)"
proof -
  define scores where "scores = [score (validate_schema e df src), score b,
      score (validate_completeness df), score k, score f]"
  define ov where "ov = sum_list scores / real (length scores)"
  define vr where "vr = \<lparr>source_name = src, total_rows = len df,
      checks = \<lparr>schema_validation = validate_schema e df src, business_rules = b,
                 completeness = validate_completeness df,
                 consistency = k, freshness = f\<rparr>,
      overall_score = ov, validation_passed = (ov \<ge> threshold_of cfg),
      quarantined_rows = 0\<rparr>"
  have vd: "validate_data e cfg df src =
      (if \<not> validation_passed vr then
         (case quarantine_bad_data e df vr src of
            Inl err \<Rightarrow> Inl err
          | Inr q \<Rightarrow> Inr (vr\<lparr>quarantined_rows := q\<rparr>))
       else Inr vr)"
    unfolding validate_data_def Let_def b k f vr_def ov_def scores_def threshold_of_def
    by simp
  have ov: "ov = (score (validate_schema e df src) + score b + score (validate_completeness df) +
          score k + score f) / 5"
    by (simp add: ov_def scores_def)
  have vr': "vr = \<lparr>source_name = src, total_rows = len df,
       checks = \<lparr>schema_validation = validate_schema e df src, business_rules = b,
                  completeness = validate_completeness df,
                  consistency = k, freshness = f\<rparr>,
       overall_score =
         (score (validate_schema e df src) + score b + score (validate_completeness df) +
          score k + score f) / 5,
       validation_passed =
         ((score (validate_schema e df src) + score b + score (validate_completeness df) +
           score k + score f) / 5 \<ge> threshold_of cfg),
       quarantined_rows = 0\<rparr>"
    unfolding vr_def ov by (rule refl)
  show thesis
    by (rule that [OF vr' vd])
qed

lemma validate_data_Inr:
  assumes "validate_data e cfg df src = Inr res"
  shows "\<exists>b k f.
    validate_business_rules e cfg df = Inr b \<and>
    validate_consistency df = Inr k \<and>
    validate_freshness e df = Inr f \<and>
    checks res = \<lparr>schema_validation = validate_schema e df src, business_rules = b,
                    completeness = validate_completeness df,
                    consistency = k, freshness = f\<rparr> \<and>
    total_rows res = len df \<and>
    overall_score res =
       (score (validate_schema e df src) + score b + score (validate_completeness df) +
        score k + score f) / 5 \<and>
    validation_passed res = (overall_score res \<ge> threshold_of cfg) \<and>
    (validation_passed res \<longrightarrow> quarantined_rows res = 0) \<and>
    (\<not> validation_passed res \<longrightarrow>
       quarantined_rows res = (if passed (validate_schema e df src) then 0 else len df))"
proof -
  from assms obtain b where b: "validate_business_rules e cfg df = Inr b"
    by (auto simp: validate_data_def Let_def split: sum.splits)
  from assms b obtain k where k: "validate_consistency df = Inr k"
    by (auto simp: validate_data_def Let_def split: sum.splits)
  from assms b k obtain f where f: "validate_freshness e df = Inr f"
    by (auto simp: validate_data_def Let_def split: sum.splits)
  from validate_data_unfold [OF b k f, of src] obtain vr where
    vr: "vr = \<lparr>source_name = src, total_rows = len df,
       checks = \<lparr>schema_validation = validate_schema e df src, business_rules = b,
                  completeness = validate_completeness df,
                  consistency = k, freshness = f\<rparr>,
       overall_score =
         (score (validate_schema e df src) + score b + score (validate_completeness df) +
          score k + score f) / 5,
       validation_passed =
         ((score (validate_schema e df src) + score b + score (validate_completeness df) +
           score k + score f) / 5 \<ge> threshold_of cfg),
       quarantined_rows = 0\<rparr>"
    and vd: "validate_data e cfg df src =
      (if \<not> validation_passed vr then
         (case quarantine_bad_data e df vr src of
            Inl err \<Rightarrow> Inl err
          | Inr q \<Rightarrow> Inr (vr\<lparr>quarantined_rows := q\<rparr>))
       else Inr vr)"
    by blast
  show ?thesis
  proof (cases "validation_passed vr")
    case True
    with vd assms have "res = vr" by simp
    with True show ?thesis
      by (intro exI [of _ b] exI [of _ k] exI [of _ f]) (simp add: vr b k f)
  next
    case False
    with vd assms obtain q where q: "quarantine_bad_data e df vr src = Inr q"
      and res: "res = vr\<lparr>quarantined_rows := q\<rparr>"
      by (auto split: sum.splits)
    from quarantine_count [OF q]
    have "q = (if passed (validate_schema e df src) then 0 else len df)"
      by (simp add: vr)
    with res False show ?thesis
      by (intro exI [of _ b] exI [of _ k] exI [of _ f]) (simp add: vr b k f)
  qed
qed

lemma validate_data_returns:
  assumes b: "validate_business_rules e cfg df = Inr b"
    and k: "validate_consistency df = Inr k"
    and f: "validate_freshness e df = Inr f"
    and a: "index_aligned df"
    and w: "quarantine_write e = None"
  shows "\<exists>res. validate_data e cfg df src = Inr res"
proof -
  from validate_data_unfold [OF b k f, of src] obtain vr where
    vd: "validate_data e cfg df src =
      (if \<not> validation_passed vr then
         (case quarantine_bad_data e df vr src of
            Inl err \<Rightarrow> Inl err
          | Inr q \<Rightarrow> Inr (vr\<lparr>quarantined_rows := q\<rparr>))
       else Inr vr)"
    by blast
  from quarantine_returns [OF a w] obtain q where "quarantine_bad_data e df vr src = Inr q"
    by blast
  with vd show ?thesis by simp
qed

subsection \<open>The sample inputs, evaluated\<close>

lemma amounts_simps:
  "columns (amounts vs) = [''amount'']"
  "len (amounts vs) = length vs"
  "col_values (amounts vs) ''amount'' = vs"
  "dtypes (amounts vs) c = OtherDtype"
  "rows (amounts vs) = [] \<longleftrightarrow> vs = []"
  by (simp_all add: amounts_def len_def col_values_def row_amount_def comp_def)

lemma amounts_business_columns: "business_columns (amounts vs) = [''amount'']"
  by (simp add: business_columns_def amounts_simps)

lemma amounts_index_aligned: "index_aligned (amounts vs)"
  by (simp add: index_aligned_def list_all_iff amounts_simps) (simp add: amounts_def)

lemma amounts_date_columns: "date_columns (amounts vs) = []"
  by (simp add: date_columns_def amounts_simps lower_def lower_char_def)

lemma amounts_freshness: "validate_freshness e (amounts vs) = Inr (freshness_result [])"
  by (simp add: validate_freshness_def ingestion_freshness_def amounts_simps
      amounts_date_columns)

lemma freshness_result_Nil: "score (freshness_result []) = 1" "passed (freshness_result [])"
  by (simp_all add: freshness_result_def)

lemma amounts_completeness:
  "score (validate_completeness (amounts vs)) =
     (if vs = [] then 0 else real (length (filter (\<lambda>c. c \<noteq> Null) vs)) / real (length vs))"
  by (simp add: completeness_score amounts_business_columns non_null_ratio_def amounts_simps)

lemma amounts_type_loop: "type_loop (amounts vs) [''amount''] acc = acc"
  by (cases acc) (simp add: amounts_simps)

lemma amounts_rows_proj:
  "map (\<lambda>r. [r ''amount'']) (rows (amounts vs)) = map (\<lambda>v. [v]) vs"
  by (simp add: amounts_def row_amount_def comp_def)

lemma amounts_duplicated_two:
  "duplicated (amounts [a, b]) [''amount''] = Inr [False, b = a]"
  by (simp add: duplicated_def amounts_rows_proj amounts_simps)

lemma amounts_consistency_two:
  "validate_consistency (amounts [a, b]) =
     Inr (consistency_result (amounts [a, b]) [False, b = a])"
  by (simp add: validate_consistency_def amounts_business_columns amounts_duplicated_two)

lemma amounts_consistency_score:
  "score (consistency_result (amounts vs) [False, False]) = 1"
  by (simp add: consistency_result_def Let_def amounts_simps amounts_type_loop count_true_def)

lemma schema_ok: "validate_schema env_ok df src =
    \<lparr>passed = True, score = 1, check_type = ''schema_validation'', error = None,
     details = SchemaDetails\<rparr>"
  by (simp add: validate_schema_def env_ok_def)

lemma schema_invalid: "validate_schema env_schema_invalid df src =
    \<lparr>passed = False, score = 0, check_type = ''schema_validation'', error = None,
     details = SchemaDetails\<rparr>"
  by (simp add: validate_schema_def env_schema_invalid_def env_ok_def)

lemma env_writes: "quarantine_write env_ok = None" "quarantine_write env_schema_invalid = None"
  by (simp_all add: env_schema_invalid_def env_ok_def)

lemma business_amount_large:
  "validate_business_rules e (config t [amount_large]) (amounts [IntV 10, IntV 20]) =
     Inr \<lparr>passed = False, score = 0, check_type = ''business_rules'', error = None,
          details = RuleResults [RuleScore ''amount_large'' False 0 0 2]\<rparr>"
  by (simp add: validate_business_rules_def configured_rules_def config_def amount_large_def mk_rule_def
      check_rule_def amounts_simps count_true_def fraction_def Let_def)

lemma business_amount_not_null:
  "validate_business_rules e (config t [amount_not_null]) (amounts [IntV 10, Null]) =
     Inr \<lparr>passed = False, score = 1/2, check_type = ''business_rules'', error = None,
          details = RuleResults [RuleScore ''amount_not_null'' False (1/2) 1 2]\<rparr>"
  by (simp add: validate_business_rules_def configured_rules_def config_def amount_not_null_def mk_rule_def
      check_rule_def amounts_simps count_true_def fraction_def Let_def notna_def)

lemma business_no_rules:
  "validate_business_rules e (config t []) df =
     Inr \<lparr>passed = True, score = 1, check_type = ''business_rules'', error = None,
          details = RuleResults []\<rparr>"
  by (simp add: validate_business_rules_def configured_rules_def config_def)

lemma threshold_of_config: "threshold_of (config None rs) = 0.95"
  "threshold_of (config (Some t) rs) = t"
  by (simp_all add: threshold_of_def config_def)

subsection \<open>Single rules\<close>

lemma count_true_map: "count_true (map P xs) = length (filter P xs)"
  by (simp add: count_true_def filter_map comp_def)

lemma non_null_count:
  "length (filter (\<lambda>c. c \<noteq> Null) xs) = length xs - length (filter (\<lambda>c. c = Null) xs)"
  using sum_length_filter_compl [of "\<lambda>c. c = Null" xs] by simp

lemma fraction_not_null:
  "fraction (length (filter (\<lambda>c. c \<noteq> Null) (col_values df c))) (len df) =
     non_null_ratio df c"
  by (simp add: fraction_def non_null_ratio_def)

lemma rules_loop_flags:
  "rules_loop e df rs (rr, tot) = Inr (rr', tot') \<Longrightarrow> list_all flag_matches_score rr \<Longrightarrow>
     list_all flag_matches_score rr'"
proof (induction rs arbitrary: rr tot)
  case Nil
  then show ?case by simp
next
  case (Cons r rs)
  then show ?case
    by (fastforce split: option.splits if_splits sum.splits prod.splits)
qed

lemma not_null_rule:
  assumes "''amount'' \<in> set (columns df)"
  shows "rules_loop e df [amount_not_null] (rr, tot) =
     Inr (rr @ [RuleScore ''amount_not_null'' (non_null_ratio df ''amount'' \<ge> 0.95)
                  (non_null_ratio df ''amount'')
                  (length (filter (\<lambda>c. c \<noteq> Null) (col_values df ''amount''))) (len df)],
          tot + non_null_ratio df ''amount'')"
  using assms
  by (simp add: amount_not_null_def mk_rule_def check_rule_def Let_def count_true_notna
      fraction_not_null)

lemma not_null_business:
  assumes "''amount'' \<in> set (columns df)"
  shows "validate_business_rules e (config t [amount_not_null]) df =
     Inr \<lparr>passed = (non_null_ratio df ''amount'' \<ge> 0.95),
          score = non_null_ratio df ''amount'', check_type = ''business_rules'',
          error = None,
          details = RuleResults
            [RuleScore ''amount_not_null'' (non_null_ratio df ''amount'' \<ge> 0.95)
               (non_null_ratio df ''amount'')
               (length (filter (\<lambda>c. c \<noteq> Null) (col_values df ''amount''))) (len df)]\<rparr>"
  by (simp add: validate_business_rules_def configured_rules_def config_def Let_def
      not_null_rule [OF assms] del: rules_loop.simps)

lemma hundred_amounts_facts:
  "nulls \<le> 100 \<Longrightarrow>
   ''amount'' \<in> set (columns (hundred_amounts nulls)) \<and> len (hundred_amounts nulls) = 100 \<and>
   length (filter (\<lambda>c. c = Null) (col_values (hundred_amounts nulls) ''amount'')) = nulls"
  by (simp add: hundred_amounts_def amounts_simps)

subsection \<open>The greater-than comparison\<close>

lemma series_gt_numeric:
  "list_all numeric_or_null cs \<Longrightarrow> series_gt cs v = Inr (map (strictly_greater v) cs)"
proof (induction cs)
  case Nil
  then show ?case by simp
next
  case (Cons c cs)
  then show ?case by (cases c) simp_all
qed

lemma series_gt_non_numeric:
  "\<not> list_all numeric_or_null cs \<Longrightarrow> series_gt cs v = Inl TypeError"
proof (induction cs)
  case Nil
  then show ?case by simp
next
  case (Cons c cs)
  then show ?case by (cases c) (auto split: sum.splits)
qed

lemma check_rule_greater_than:
  assumes "rule_value r = Some v"
  shows "check_rule e df r c ''greater_than'' =
     (if list_all numeric_or_null (col_values df c)
      then Inr (spec_greater_than_score df c v,
                length (filter (strictly_greater v) (col_values df c)), len df)
      else Inl TypeError)"
  using assms
  by (simp add: check_rule_def Let_def series_gt_numeric series_gt_non_numeric
      count_true_map spec_greater_than_score_def)

subsection \<open>Where errors are contained\<close>

lemma rules_loop_well_keyed:
  "list_all well_keyed rs \<Longrightarrow> \<exists>rr tot. rules_loop e df rs acc = Inr (rr, tot)"
proof (induction rs arbitrary: acc)
  case Nil
  then show ?case by (cases acc) simp
next
  case (Cons r rs)
  then show ?case
    by (cases acc) (auto simp: well_keyed_def split: sum.splits prod.splits)
qed

lemma business_rules_well_keyed:
  "list_all well_keyed (configured_rules cfg) \<Longrightarrow>
     \<exists>b. validate_business_rules e cfg df = Inr b"
  using rules_loop_well_keyed [of "configured_rules cfg" e df "([], 0)"]
  by (auto simp: validate_business_rules_def Let_def)

subsection \<open>Completeness as a mean\<close>

lemma ratio_all_non_null:
  assumes "rows df \<noteq> []" and "list_all (\<lambda>c. c \<noteq> Null) (col_values df column)"
  shows "non_null_ratio df column = 1"
proof -
  from assms(2) have "filter (\<lambda>c. c \<noteq> Null) (col_values df column) = col_values df column"
    by (simp add: list_all_iff)
  with assms(1) show ?thesis
    by (simp add: non_null_ratio_def length_col_values len_def)
qed

lemma sum_list_all_one:
  "\<forall>x \<in> set xs. f x = (1::real) \<Longrightarrow> sum_list (map f xs) = real (length xs)"
  by (induction xs) simp_all

subsection \<open>Frames that agree on their business columns\<close>

lemma sbd_business_columns:
  "same_business_data df df' \<Longrightarrow> business_columns df' = business_columns df"
  by (simp add: same_business_data_def business_columns_def)

lemma sbd_business_values:
  "same_business_data df df' \<Longrightarrow> c \<in> set (business_columns df) \<Longrightarrow>
     col_values df' c = col_values df c"
  by (simp add: same_business_data_def business_columns_def)

lemma sbd_rows_empty:
  "same_business_data df df' \<Longrightarrow> (rows df' = []) = (rows df = [])"
  by (auto simp: same_business_data_def len_def)

lemma completeness_loop_cong:
  "\<forall>c \<in> set cs. col_values df' c = col_values df c \<Longrightarrow> len df' = len df \<Longrightarrow>
     completeness_loop df' cs acc = completeness_loop df cs acc"
  by (induction cs arbitrary: acc) (auto simp: Let_def)

lemma projection_cong:
  assumes "\<forall>c \<in> set cs. col_values df' c = col_values df c" and "len df' = len df"
  shows "map (\<lambda>r. map r cs) (rows df') = map (\<lambda>r. map r cs) (rows df)"
proof (rule nth_equalityI)
  show "length (map (\<lambda>r. map r cs) (rows df')) = length (map (\<lambda>r. map r cs) (rows df))"
    using assms(2) by (simp add: len_def)
next
  fix i assume "i < length (map (\<lambda>r. map r cs) (rows df'))"
  then have i: "i < length (rows df')" "i < length (rows df)"
    using assms(2) by (simp_all add: len_def)
  have "(rows df' ! i) c = (rows df ! i) c" if "c \<in> set cs" for c
  proof -
    from that assms(1) have "col_values df' c ! i = col_values df c ! i" by simp
    with i show ?thesis by (simp add: col_values_def)
  qed
  with i show "map (\<lambda>r. map r cs) (rows df') ! i = map (\<lambda>r. map r cs) (rows df) ! i"
    by simp
qed

lemma type_loop_cong:
  "\<forall>c \<in> set cs. \<not> startswith_underscore c \<longrightarrow>
       col_values df' c = col_values df c \<and> dtypes df' c = dtypes df c \<Longrightarrow>
     type_loop df' cs acc = type_loop df cs acc"
proof (induction cs arbitrary: acc)
  case Nil
  then show ?case by simp
next
  case (Cons c cs)
  then show ?case by (cases acc) (simp add: sample_types_def Let_def)
qed

lemma check_rule_cong:
  assumes v: "col_values df' c = col_values df c" and l: "len df' = len df"
  shows "check_rule e df' r c t = check_rule e df r c t"
  unfolding check_rule_def v l by (rule refl)

lemma rules_loop_cong:
  assumes "same_business_data df df'"
  shows "rules_on_business_columns rs \<Longrightarrow>
     rules_loop e df' rs acc = rules_loop e df rs acc"
proof (induction rs arbitrary: acc)
  case Nil
  then show ?case by (cases acc) simp
next
  case (Cons r rs)
  from Cons.prems have rs: "rules_on_business_columns rs"
    by (simp add: rules_on_business_columns_def)
  obtain rr tot where acc: "acc = (rr, tot)" by (cases acc)
  show ?case
  proof (cases "rule_name r")
    case None
    then show ?thesis by (simp add: acc)
  next
    case (Some n)
    note n = this
    show ?thesis
    proof (cases "rule_column r")
      case None
      with n show ?thesis by (simp add: acc)
    next
      case (Some c)
      note c = this
      with Cons.prems have nu: "\<not> startswith_underscore c"
        by (simp add: rules_on_business_columns_def)
      from assms have cols: "columns df' = columns df" and len: "len df' = len df"
        by (simp_all add: same_business_data_def)
      show ?thesis
      proof (cases "rule_check r")
        case None
        with n c show ?thesis by (simp add: acc)
      next
        case (Some t)
        show ?thesis
        proof (cases "c \<in> set (columns df)")
          case False
          with n c Some cols show ?thesis
            by (simp add: acc Cons.IH [OF rs])
        next
          case True
          with assms nu have "col_values df' c = col_values df c"
            by (simp add: same_business_data_def)
          then have "check_rule e df' r c t = check_rule e df r c t"
            using len by (rule check_rule_cong)
          with n c Some cols True show ?thesis
            by (simp add: acc Cons.IH [OF rs] split: sum.splits prod.splits)
        qed
      qed
    qed
  qed
qed

lemma df_meta_simps:
  "columns (df_meta m1 m2) = [''amount'', ''_m'']"
  "len (df_meta m1 m2) = 2"
  "col_values (df_meta m1 m2) ''amount'' = [IntV 1, IntV 2]"
  "col_values (df_meta m1 m2) ''_m'' = [m1, m2]"
  "dtypes (df_meta m1 m2) c = ObjectDtype"
  by (simp_all add: df_meta_def len_def col_values_def row_meta_def)

lemma df_meta_same: "same_business_data (df_meta m1 m2) (df_meta m1' m2')"
  by (simp add: same_business_data_def df_meta_simps)

lemma schema_raises: "validate_schema env_schema_raises df src =
    \<lparr>passed = False, score = 0, check_type = ''schema_validation'',
     error = Some (OtherError ''schema file unreadable''), details = NoDetails\<rparr>"
  by (simp add: validate_schema_def env_schema_raises_def)

lemma env_raises_writes: "quarantine_write env_schema_raises = None"
  by (simp add: env_schema_raises_def env_ok_def)

subsection \<open>Where validation does not return\<close>

lemma gap_frame_raises:
  "validate_data env_schema_invalid (config None []) gap_frame ''tx'' = Inl IndexingError"
proof -
  have g: "columns gap_frame = [''amount'']" "len gap_frame = 2"
    "rows gap_frame = rows (amounts [IntV 10, IntV 20])"
    "\<And>c. dtypes gap_frame c = OtherDtype"
    by (simp_all add: gap_frame_def amounts_def len_def)
  have na: "\<not> index_aligned gap_frame"
    by (simp add: index_aligned_def g) (simp add: gap_frame_def upt_rec)
  have k: "validate_consistency gap_frame =
      Inr (consistency_result gap_frame [False, False])"
    by (simp add: validate_consistency_def business_columns_def duplicated_def g
        amounts_def row_amount_def)
  have ks: "score (consistency_result gap_frame [False, False]) = 1"
    by (simp add: consistency_result_def Let_def g count_true_def)
  have f: "validate_freshness env_schema_invalid gap_frame = Inr (freshness_result [])"
    by (simp add: validate_freshness_def ingestion_freshness_def date_columns_def g
        lower_def lower_char_def)
  have c: "score (validate_completeness gap_frame) = 1"
    by (simp add: completeness_score business_columns_def g non_null_ratio_def
        col_values_def amounts_def row_amount_def)
  from validate_data_unfold [OF business_no_rules [where t = None] k f,
      where src = "''tx''"]
  obtain vr where
    vr: "vr = \<lparr>source_name = ''tx'', total_rows = len gap_frame,
       checks = \<lparr>schema_validation = validate_schema env_schema_invalid gap_frame ''tx'',
                  business_rules = \<lparr>passed = True, score = 1,
                     check_type = ''business_rules'', error = None,
                     details = RuleResults []\<rparr>,
                  completeness = validate_completeness gap_frame,
                  consistency = consistency_result gap_frame [False, False],
                  freshness = freshness_result []\<rparr>,
       overall_score =
         (score (validate_schema env_schema_invalid gap_frame ''tx'') +
          score \<lparr>passed = True, score = 1,
                     check_type = ''business_rules'', error = None,
                     details = RuleResults []\<rparr> +
          score (validate_completeness gap_frame) +
          score (consistency_result gap_frame [False, False]) +
          score (freshness_result [])) / 5,
       validation_passed =
         ((score (validate_schema env_schema_invalid gap_frame ''tx'') +
           score \<lparr>passed = True, score = 1,
                     check_type = ''business_rules'', error = None,
                     details = RuleResults []\<rparr> +
           score (validate_completeness gap_frame) +
           score (consistency_result gap_frame [False, False]) +
           score (freshness_result [])) / 5 \<ge> threshold_of (config None [])),
       quarantined_rows = 0\<rparr>"
    and vd: "validate_data env_schema_invalid (config None []) gap_frame ''tx'' =
      (if \<not> validation_passed vr then
         (case quarantine_bad_data env_schema_invalid gap_frame vr ''tx'' of
            Inl err \<Rightarrow> Inl err
          | Inr q \<Rightarrow> Inr (vr\<lparr>quarantined_rows := q\<rparr>))
       else Inr vr)"
    by blast
  have "\<not> validation_passed vr"
    by (simp add: vr schema_invalid ks c freshness_result_Nil threshold_of_config)
  with vd na show ?thesis
    by (simp add: quarantine_bad_data_eq)
qed

lemma unparseable_ingestion_raises:
  "validate_data env_ok (config None []) df_ingested ''tx'' = Inl ParserError"
proof -
  have k: "validate_consistency df_ingested =
      Inr (consistency_result df_ingested [False])"
    by (simp add: validate_consistency_def business_columns_def duplicated_def
        df_ingested_def)
  have f: "validate_freshness env_ok df_ingested = Inl ParserError"
    by (simp add: validate_freshness_def ingestion_freshness_def df_ingested_def
        col_values_def row_ingested_def strict_datetime_def env_ok_def)
  show ?thesis
    unfolding validate_data_def Let_def business_no_rules [where t = None] k f by simp
qed

lemma completeness_no_rows:
  "non_null_ratio (amounts []) ''amount'' = 0 \<and>
   score (validate_completeness (amounts [])) = 0 \<and>
   passed (validate_completeness (amounts [])) = False"
  by (simp add: non_null_ratio_def amounts_simps completeness_passed amounts_completeness)

lemma meta_rule_changes_result:
  "\<not> rules_on_business_columns (configured_rules (config None [meta_not_null])) \<and>
   validate_business_rules env_ok (config None [meta_not_null]) (df_meta (IntV 1) (IntV 1)) \<noteq>
   validate_business_rules env_ok (config None [meta_not_null]) (df_meta Null Null)"
  by (simp add: rules_on_business_columns_def validate_business_rules_def
      configured_rules_def config_def meta_not_null_def mk_rule_def check_rule_def
      df_meta_simps count_true_def notna_def fraction_def)

section \<open>The claims\<close>

text \<open>
  C1. Whenever \<^verbatim>\<open>validate_data\<close> returns, its \<open>overall_score\<close> is the arithmetic
  mean, with equal weights, of the scores of the five check results it returns (schema,
  business rules, completeness, consistency, freshness), and it lies between 0 and 1.
\<close>

theorem overall_score_is_mean:
  assumes "validate_data e cfg df src = Inr res"
  shows "overall_score res =
           mean [score (schema_validation (checks res)), score (business_rules (checks res)),
                 score (completeness (checks res)), score (consistency (checks res)),
                 score (freshness (checks res))] \<and>
         0 \<le> overall_score res \<and> overall_score res \<le> 1"
proof -
  from validate_data_Inr [OF assms] obtain b k f where
    b: "validate_business_rules e cfg df = Inr b" and
    k: "validate_consistency df = Inr k" and
    f: "validate_freshness e df = Inr f" and
    c: "checks res = \<lparr>schema_validation = validate_schema e df src, business_rules = b,
                    completeness = validate_completeness df,
                    consistency = k, freshness = f\<rparr>" and
    ov: "overall_score res =
       (score (validate_schema e df src) + score b + score (validate_completeness df) +
        score k + score f) / 5"
    by blast
  have m: "overall_score res =
           mean [score (schema_validation (checks res)), score (business_rules (checks res)),
                 score (completeness (checks res)), score (consistency (checks res)),
                 score (freshness (checks res))]"
    by (simp add: ov c mean_def)
  have s: "0 \<le> score (validate_schema e df src) \<and> score (validate_schema e df src) \<le> 1"
    using schema_score_cases [of e df src] by auto
  note bounds = s business_score_bounds [OF b] completeness_score_bounds [of df]
    consistency_score_bounds [OF k] freshness_score_bounds [OF f]
  have "0 \<le> overall_score res" "overall_score res \<le> 1"
    using bounds unfolding ov by simp_all
  with m show ?thesis by blast
qed

theorem overall_score_is_mean_witness:
  "\<exists>res. validate_data env_ok (config None [amount_not_null]) (amounts [IntV 10, Null]) ''tx''
            = Inr res \<and>
     overall_score res = mean [1, 1/2, 1/2, 1, 1] \<and> overall_score res = 4/5 \<and>
     0 \<le> overall_score res \<and> overall_score res \<le> 1"
proof -
  let ?cfg = "config None [amount_not_null]" and ?df = "amounts [IntV 10, Null]"
  from validate_data_returns [OF business_amount_not_null amounts_consistency_two amounts_freshness amounts_index_aligned
      env_writes(1)]
  obtain res where r: "validate_data env_ok ?cfg ?df ''tx'' = Inr res" by blast
  from validate_data_Inr [OF r] obtain b k f where
    "validate_business_rules env_ok ?cfg ?df = Inr b" and
    "validate_consistency ?df = Inr k" and
    "validate_freshness env_ok ?df = Inr f" and
    c: "checks res = \<lparr>schema_validation = validate_schema env_ok ?df ''tx'',
                    business_rules = b,
                    completeness = validate_completeness ?df,
                    consistency = k, freshness = f\<rparr>"
    by blast
  then have sc: "score (schema_validation (checks res)) = 1"
    "score (business_rules (checks res)) = 1/2"
    "score (completeness (checks res)) = 1/2"
    "score (consistency (checks res)) = 1"
    "score (freshness (checks res)) = 1"
    by (auto simp: schema_ok business_amount_not_null amounts_freshness
        amounts_completeness amounts_consistency_two amounts_consistency_score
        freshness_result_Nil)
  from overall_score_is_mean [OF r] sc
  have "overall_score res = mean [1, 1/2, 1/2, 1, 1]" "0 \<le> overall_score res"
    "overall_score res \<le> 1"
    by simp_all
  moreover from this have "overall_score res = 4/5" by (simp add: mean_def)
  ultimately show ?thesis using r by blast
qed

text \<open>
  C2. When \<^verbatim>\<open>validate_data\<close> returns a result that did not pass (its overall score
  is below the threshold), the quarantine takes rows only if the schema check failed,
  and then it takes the whole dataset: \<open>quarantined_rows\<close> is \<open>total_rows\<close>. If the
  schema check passed (only business rules, completeness, consistency or freshness
  failed), \<open>quarantined_rows\<close> is 0 although the result did not pass. The quarantine
  step itself returns these numbers whenever the row labels of the dataset are those of
  the mask and the write succeeds.
\<close>

theorem quarantine_only_on_schema_failure:
  "(validate_data e cfg df src = Inr res \<and> \<not> validation_passed res \<longrightarrow>
      overall_score res < threshold_of cfg \<and>
      quarantined_rows res =
        (if passed (schema_validation (checks res)) then 0 else total_rows res)) \<and>
   (index_aligned df \<and> quarantine_write e = None \<longrightarrow>
      quarantine_bad_data e df vr src =
        Inr (if passed (schema_validation (checks vr)) then 0 else len df))"
proof (intro conjI impI)
  assume a: "validate_data e cfg df src = Inr res \<and> \<not> validation_passed res"
  from validate_data_Inr [of e cfg df src res] a obtain b k f where
    c: "checks res = \<lparr>schema_validation = validate_schema e df src, business_rules = b,
                    completeness = validate_completeness df,
                    consistency = k, freshness = f\<rparr>" and
    t: "total_rows res = len df" and
    p: "validation_passed res = (overall_score res \<ge> threshold_of cfg)" and
    q: "\<not> validation_passed res \<longrightarrow>
       quarantined_rows res = (if passed (validate_schema e df src) then 0 else len df)"
    by blast
  from p a show "overall_score res < threshold_of cfg" by simp
  from q a show "quarantined_rows res =
           (if passed (schema_validation (checks res)) then 0 else total_rows res)"
    by (simp add: c t)
next
  assume "index_aligned df \<and> quarantine_write e = None"
  then show "quarantine_bad_data e df vr src =
        Inr (if passed (schema_validation (checks vr)) then 0 else len df)"
    by (simp add: quarantine_returns)
qed

theorem quarantine_only_on_schema_failure_witness:
  "(\<exists>res. validate_data env_ok (config None [amount_large]) (amounts [IntV 10, IntV 20])
             ''tx'' = Inr res \<and>
     overall_score res = 4/5 \<and> validation_passed res = False \<and>
     passed (schema_validation (checks res)) = True \<and>
     passed (business_rules (checks res)) = False \<and>
     total_rows res = 2 \<and> quarantined_rows res = 0) \<and>
   (\<exists>res. validate_data env_schema_raises (config None []) (amounts [IntV 10, IntV 20])
             ''tx'' = Inr res \<and>
     overall_score res = 4/5 \<and> validation_passed res = False \<and>
     passed (schema_validation (checks res)) = False \<and>
     total_rows res = 2 \<and> quarantined_rows res = 2 \<and>
     quarantine_bad_data env_schema_raises (amounts [IntV 10, IntV 20]) res ''tx'' = Inr 2) \<and>
   index_aligned (amounts [IntV 10, IntV 20]) \<and> quarantine_write env_schema_raises = None"
proof -
  let ?df = "amounts [IntV 10, IntV 20]"
  have first: "\<exists>res. validate_data env_ok (config None [amount_large]) ?df ''tx'' = Inr res \<and>
     overall_score res = 4/5 \<and> validation_passed res = False \<and>
     passed (schema_validation (checks res)) = True \<and>
     passed (business_rules (checks res)) = False \<and>
     total_rows res = 2 \<and> quarantined_rows res = 0"
  proof -
    let ?cfg = "config None [amount_large]"
    from validate_data_returns [OF business_amount_large amounts_consistency_two
        amounts_freshness amounts_index_aligned env_writes(1)]
    obtain res where r: "validate_data env_ok ?cfg ?df ''tx'' = Inr res" by blast
    from validate_data_Inr [OF r] obtain b k f where
      b: "validate_business_rules env_ok ?cfg ?df = Inr b" and
      k: "validate_consistency ?df = Inr k" and
      f: "validate_freshness env_ok ?df = Inr f" and
      c: "checks res = \<lparr>schema_validation = validate_schema env_ok ?df ''tx'',
                      business_rules = b,
                      completeness = validate_completeness ?df,
                      consistency = k, freshness = f\<rparr>" and
      t: "total_rows res = len ?df" and
      ov: "overall_score res =
         (score (validate_schema env_ok ?df ''tx'') + score b +
          score (validate_completeness ?df) + score k + score f) / 5"
      and p: "validation_passed res = (overall_score res \<ge> threshold_of ?cfg)"
      by blast
    from b k f have sc: "score b = 0" "passed b = False" "score f = 1" "score k = 1"
      by (auto simp: business_amount_large amounts_freshness freshness_result_Nil
          amounts_consistency_two amounts_consistency_score)
    have o: "overall_score res = 4/5"
      by (simp add: ov sc schema_ok amounts_completeness)
    with p have np: "\<not> validation_passed res" by (simp add: threshold_of_config)
    have ps: "passed (schema_validation (checks res))" by (simp add: c schema_ok)
    from quarantine_only_on_schema_failure [of env_ok ?cfg ?df "''tx''" res] r np ps
    have "quarantined_rows res = 0" by simp
    with o np ps sc t c show ?thesis using r by (auto simp: amounts_simps)
  qed
  have second: "\<exists>res. validate_data env_schema_raises (config None []) ?df ''tx'' = Inr res \<and>
     overall_score res = 4/5 \<and> validation_passed res = False \<and>
     passed (schema_validation (checks res)) = False \<and>
     total_rows res = 2 \<and> quarantined_rows res = 2 \<and>
     quarantine_bad_data env_schema_raises ?df res ''tx'' = Inr 2"
  proof -
    let ?cfg = "config None []"
    from validate_data_returns [OF business_no_rules amounts_consistency_two
        amounts_freshness amounts_index_aligned env_raises_writes]
    obtain res where r: "validate_data env_schema_raises ?cfg ?df ''tx'' = Inr res" by blast
    from validate_data_Inr [OF r] obtain b k f where
      b: "validate_business_rules env_schema_raises ?cfg ?df = Inr b" and
      k: "validate_consistency ?df = Inr k" and
      f: "validate_freshness env_schema_raises ?df = Inr f" and
      c: "checks res = \<lparr>schema_validation = validate_schema env_schema_raises ?df ''tx'',
                      business_rules = b,
                      completeness = validate_completeness ?df,
                      consistency = k, freshness = f\<rparr>" and
      t: "total_rows res = len ?df" and
      ov: "overall_score res =
         (score (validate_schema env_schema_raises ?df ''tx'') + score b +
          score (validate_completeness ?df) + score k + score f) / 5"
      and p: "validation_passed res = (overall_score res \<ge> threshold_of ?cfg)"
      by blast
    from b k f have sc: "score b = 1" "score f = 1" "score k = 1"
      by (auto simp: business_no_rules amounts_freshness freshness_result_Nil
          amounts_consistency_two amounts_consistency_score)
    have o: "overall_score res = 4/5"
      by (simp add: ov sc schema_raises amounts_completeness)
    with p have np: "\<not> validation_passed res" by (simp add: threshold_of_config)
    have ps: "\<not> passed (schema_validation (checks res))" by (simp add: c schema_raises)
    from quarantine_only_on_schema_failure
      [of env_schema_raises ?cfg ?df "''tx''" res res] r np ps t
      amounts_index_aligned [of "[IntV 10, IntV 20]"] env_raises_writes
    have "quarantined_rows res = 2"
      "quarantine_bad_data env_schema_raises ?df res ''tx'' = Inr 2"
      by (simp_all add: amounts_simps)
    with o np ps t show ?thesis using r by (auto simp: amounts_simps)
  qed
  from first second amounts_index_aligned env_raises_writes show ?thesis by blast
qed

text \<open>
  C6. Whenever \<^verbatim>\<open>validate_data\<close> returns, the pass flag of the result is true
  exactly when the overall score is at least the configured \<open>coverage_threshold\<close>,
  which is 0.95 when the configuration has none.
\<close>

theorem passed_iff_threshold:
  assumes "validate_data e cfg df src = Inr res"
  shows "validation_passed res =
           (overall_score res \<ge> (case coverage_threshold cfg of None \<Rightarrow> 0.95 | Some t \<Rightarrow> t))"
proof -
  from validate_data_Inr [OF assms]
  have "validation_passed res = (overall_score res \<ge> threshold_of cfg)"
    by blast
  then show ?thesis by (simp add: threshold_of_def)
qed

theorem passed_iff_threshold_witness:
  "\<exists>res. validate_data env_schema_invalid (config (Some (4/5)) [])
             (amounts [IntV 10, IntV 20]) ''tx'' = Inr res \<and>
     overall_score res = 4/5 \<and> validation_passed res = True"
proof -
  let ?cfg = "config (Some (4/5)) []" and ?df = "amounts [IntV 10, IntV 20]"
  from validate_data_returns [OF business_no_rules amounts_consistency_two amounts_freshness amounts_index_aligned
      env_writes(2)]
  obtain res where r: "validate_data env_schema_invalid ?cfg ?df ''tx'' = Inr res" by blast
  from validate_data_Inr [OF r] obtain b k f where
    b: "validate_business_rules env_schema_invalid ?cfg ?df = Inr b" and
    k: "validate_consistency ?df = Inr k" and
    f: "validate_freshness env_schema_invalid ?df = Inr f" and
    ov: "overall_score res =
       (score (validate_schema env_schema_invalid ?df ''tx'') + score b +
        score (validate_completeness ?df) + score k + score f) / 5"
    by blast
  from b k f have sc: "score b = 1" "score f = 1" "score k = 1"
    by (auto simp: business_no_rules amounts_freshness freshness_result_Nil
        amounts_consistency_two amounts_consistency_score)
  have o: "overall_score res = 4/5"
    by (simp add: ov sc schema_invalid amounts_completeness)
  from passed_iff_threshold [OF r] o have "validation_passed res"
    by (simp add: config_def)
  with o r show ?thesis by blast
qed

text \<open>
  C7. With an empty configured rule list the business rule check returns, for every
  dataset, a result with score exactly 1 and \<open>passed\<close> true.
\<close>

theorem no_rules_score_one:
  assumes "configured_rules cfg = []"
  shows "\<exists>r. validate_business_rules e cfg df = Inr r \<and> score r = 1 \<and> passed r = True"
  using assms by (simp add: validate_business_rules_def)

theorem no_rules_score_one_witness:
  "configured_rules (config None []) = [] \<and>
   (\<exists>r. validate_business_rules env_ok (config None []) (amounts [IntV 10, Null]) = Inr r \<and>
        score r = 1 \<and> passed r = True)"
proof -
  have h: "configured_rules (config None []) = []"
    by (simp add: configured_rules_def config_def)
  from no_rules_score_one [OF h] h show ?thesis by blast
qed

text \<open>
  C10. Whenever \<^verbatim>\<open>validate_data\<close> returns, \<open>quarantined_rows\<close> is all or nothing:
  it is 0 or exactly \<open>total_rows\<close>, never a strict part of the dataset.
\<close>

theorem quarantine_all_or_nothing:
  assumes "validate_data e cfg df src = Inr res"
  shows "quarantined_rows res = 0 \<or> quarantined_rows res = total_rows res"
proof -
  from validate_data_Inr [OF assms] obtain b k f where
    "validate_business_rules e cfg df = Inr b" and
    "validate_consistency df = Inr k" and
    "validate_freshness e df = Inr f" and
    t: "total_rows res = len df" and
    q0: "validation_passed res \<longrightarrow> quarantined_rows res = 0" and
    q: "\<not> validation_passed res \<longrightarrow>
       quarantined_rows res = (if passed (validate_schema e df src) then 0 else len df)"
    by blast
  show ?thesis
  proof (cases "validation_passed res")
    case True
    then show ?thesis by (simp add: q0)
  next
    case False
    from q False show ?thesis by (simp add: t)
  qed
qed

theorem quarantine_all_or_nothing_witness:
  "\<exists>res. validate_data env_schema_invalid (config None [])
             (amounts [IntV 10, IntV 20]) ''tx'' = Inr res \<and>
     validation_passed res = False \<and> total_rows res = 2 \<and> quarantined_rows res = 2"
proof -
  let ?cfg = "config None []" and ?df = "amounts [IntV 10, IntV 20]"
  from validate_data_returns [OF business_no_rules amounts_consistency_two amounts_freshness amounts_index_aligned
      env_writes(2)]
  obtain res where r: "validate_data env_schema_invalid ?cfg ?df ''tx'' = Inr res" by blast
  from validate_data_Inr [OF r] obtain b k f where
    b: "validate_business_rules env_schema_invalid ?cfg ?df = Inr b" and
    k: "validate_consistency ?df = Inr k" and
    f: "validate_freshness env_schema_invalid ?df = Inr f" and
    t: "total_rows res = len ?df" and
    ov: "overall_score res =
       (score (validate_schema env_schema_invalid ?df ''tx'') + score b +
        score (validate_completeness ?df) + score k + score f) / 5"
    and p: "validation_passed res = (overall_score res \<ge> threshold_of ?cfg)"
    and q: "\<not> validation_passed res \<longrightarrow> quarantined_rows res =
         (if passed (validate_schema env_schema_invalid ?df ''tx'') then 0 else len ?df)"
    by blast
  from b k f have sc: "score b = 1" "score f = 1" "score k = 1"
    by (auto simp: business_no_rules amounts_freshness freshness_result_Nil
        amounts_consistency_two amounts_consistency_score)
  have o: "overall_score res = 4/5"
    by (simp add: ov sc schema_invalid amounts_completeness)
  with p have np: "\<not> validation_passed res" by (simp add: threshold_of_config)
  from q np have q2: "quarantined_rows res = 2"
    by (simp add: schema_invalid amounts_simps)
  from quarantine_all_or_nothing [OF r] q2 t
  have "quarantined_rows res = total_rows res" by (simp add: amounts_simps)
  with q2 np r show ?thesis by auto
qed

text \<open>
  C8. The pass flag of a scored business rule is its score against 0.95, equality
  passing. On a dataset of 100 rows whose column \<^verbatim>\<open>amount\<close> holds exactly 5 nulls,
  the rule \<^verbatim>\<open>amount_not_null\<close> scores exactly 0.95 (95 of 100 rows) and passes; with
  6 nulls it scores 0.94 (94 of 100) and does not pass.
\<close>

theorem rule_passes_at_boundary:
  "(rules_loop e df0 rs ([], 0) = Inr (rr, tot) \<longrightarrow> list_all flag_matches_score rr) \<and>
   (''amount'' \<in> set (columns df) \<and> len df = 100 \<and>
    length (filter (\<lambda>c. c = Null) (col_values df ''amount'')) = 5 \<longrightarrow>
      validate_business_rules e (config t [amount_not_null]) df =
        Inr \<lparr>passed = True, score = 0.95, check_type = ''business_rules'', error = None,
             details = RuleResults [RuleScore ''amount_not_null'' True 0.95 95 100]\<rparr>) \<and>
   (''amount'' \<in> set (columns df) \<and> len df = 100 \<and>
    length (filter (\<lambda>c. c = Null) (col_values df ''amount'')) = 6 \<longrightarrow>
      validate_business_rules e (config t [amount_not_null]) df =
        Inr \<lparr>passed = False, score = 0.94, check_type = ''business_rules'', error = None,
             details = RuleResults [RuleScore ''amount_not_null'' False 0.94 94 100]\<rparr>)"
proof (intro conjI impI)
  assume "rules_loop e df0 rs ([], 0) = Inr (rr, tot)"
  then show "list_all flag_matches_score rr"
    by (rule rules_loop_flags) simp
next
  assume a: "''amount'' \<in> set (columns df) \<and> len df = 100 \<and>
    length (filter (\<lambda>c. c = Null) (col_values df ''amount'')) = 5"
  then have n: "length (filter (\<lambda>c. c \<noteq> Null) (col_values df ''amount'')) = 95"
    by (simp add: non_null_count length_col_values)
  with a have "non_null_ratio df ''amount'' = 0.95"
    by (simp add: non_null_ratio_def)
  with a n show "validate_business_rules e (config t [amount_not_null]) df =
        Inr \<lparr>passed = True, score = 0.95, check_type = ''business_rules'', error = None,
             details = RuleResults [RuleScore ''amount_not_null'' True 0.95 95 100]\<rparr>"
    by (simp add: not_null_business)
next
  assume a: "''amount'' \<in> set (columns df) \<and> len df = 100 \<and>
    length (filter (\<lambda>c. c = Null) (col_values df ''amount'')) = 6"
  then have n: "length (filter (\<lambda>c. c \<noteq> Null) (col_values df ''amount'')) = 94"
    by (simp add: non_null_count length_col_values)
  with a have "non_null_ratio df ''amount'' = 0.94"
    by (simp add: non_null_ratio_def)
  with a n show "validate_business_rules e (config t [amount_not_null]) df =
        Inr \<lparr>passed = False, score = 0.94, check_type = ''business_rules'', error = None,
             details = RuleResults [RuleScore ''amount_not_null'' False 0.94 94 100]\<rparr>"
    by (simp add: not_null_business)
qed

theorem rule_passes_at_boundary_witness:
  "rules_loop env_ok (hundred_amounts 5) [amount_not_null] ([], 0) =
     Inr ([RuleScore ''amount_not_null'' True 0.95 95 100], 0.95) \<and>
   list_all flag_matches_score [RuleScore ''amount_not_null'' True 0.95 95 100] \<and>
   validate_business_rules env_ok (config None [amount_not_null]) (hundred_amounts 5) =
     Inr \<lparr>passed = True, score = 0.95, check_type = ''business_rules'', error = None,
          details = RuleResults [RuleScore ''amount_not_null'' True 0.95 95 100]\<rparr> \<and>
   validate_business_rules env_ok (config None [amount_not_null]) (hundred_amounts 6) =
     Inr \<lparr>passed = False, score = 0.94, check_type = ''business_rules'', error = None,
          details = RuleResults [RuleScore ''amount_not_null'' False 0.94 94 100]\<rparr>"
proof -
  have h5: "''amount'' \<in> set (columns (hundred_amounts 5)) \<and> len (hundred_amounts 5) = 100 \<and>
    length (filter (\<lambda>c. c = Null) (col_values (hundred_amounts 5) ''amount'')) = 5"
    by (rule hundred_amounts_facts) simp
  have h6: "''amount'' \<in> set (columns (hundred_amounts 6)) \<and> len (hundred_amounts 6) = 100 \<and>
    length (filter (\<lambda>c. c = Null) (col_values (hundred_amounts 6) ''amount'')) = 6"
    by (rule hundred_amounts_facts) simp
  have l: "rules_loop env_ok (hundred_amounts 5) [amount_not_null] ([], 0) =
     Inr ([RuleScore ''amount_not_null'' True 0.95 95 100], 0.95)"
    using h5 by (simp add: not_null_rule non_null_ratio_def non_null_count length_col_values
        del: rules_loop.simps)
  from rule_passes_at_boundary [of env_ok "hundred_amounts 5" "[amount_not_null]"
      "[RuleScore ''amount_not_null'' True 0.95 95 100]" "0.95" "hundred_amounts 5" None]
    rule_passes_at_boundary [of env_ok "hundred_amounts 5" "[amount_not_null]"
      "[RuleScore ''amount_not_null'' True 0.95 95 100]" "0.95" "hundred_amounts 6" None]
    h5 h6 l
  show ?thesis by blast
qed

text \<open>
  C3, as the code has it. The claim as stated fails: a rule dictionary without the key
  \<^verbatim>\<open>name\<close> makes \<^verbatim>\<open>validate_data\<close> raise \<^verbatim>\<open>KeyError\<close> (the counterexample). What
  holds is the containment the source builds. An exception of the schema manager
  becomes a failing schema result with score 0 that carries the error. With rules that
  all have the keys \<^verbatim>\<open>name\<close>, \<^verbatim>\<open>column\<close> and \<^verbatim>\<open>check\<close>, the business rule check
  returns a result with a score between 0 and 1: a rule whose evaluation raises, and a
  rule on a column the dataset does not have, get an error entry and add nothing to the
  total. A business date column that does not convert is skipped by the freshness check.
\<close>

theorem errors_contained:
  "(validate_dataframe e df src = Inl err \<longrightarrow>
       validate_schema e df src =
         \<lparr>passed = False, score = 0, check_type = ''schema_validation'',
          error = Some err, details = NoDetails\<rparr>) \<and>
   (list_all well_keyed (configured_rules cfg) \<longrightarrow>
       (\<exists>b. validate_business_rules e cfg df = Inr b \<and> 0 \<le> score b \<and> score b \<le> 1)) \<and>
   (rule_name r = Some n \<and> rule_column r = Some c \<and> rule_check r = Some t \<and>
    c \<in> set (columns df) \<and> check_rule e df r c t = Inl err' \<longrightarrow>
       rules_loop e df (r # rest) (rr, tot) =
         rules_loop e df rest (rr @ [RuleError n (Raised err')], tot)) \<and>
   (rule_name r' = Some n' \<and> rule_column r' = Some c' \<and> rule_check r' = Some t' \<and>
    c' \<notin> set (columns df) \<longrightarrow>
       rules_loop e df (r' # rest) (rr, tot) =
         rules_loop e df rest (rr @ [RuleError n' (ColumnNotFound c')], tot)) \<and>
   (series_to_datetime e (col_values df date_col) = Inl err'' \<longrightarrow>
       date_loop e df (date_col # cols) fc = date_loop e df cols fc)"
proof -
  have "validate_dataframe e df src = Inl err \<longrightarrow>
       validate_schema e df src =
         \<lparr>passed = False, score = 0, check_type = ''schema_validation'',
          error = Some err, details = NoDetails\<rparr>"
    by (simp add: validate_schema_def)
  moreover have "list_all well_keyed (configured_rules cfg) \<longrightarrow>
       (\<exists>b. validate_business_rules e cfg df = Inr b \<and> 0 \<le> score b \<and> score b \<le> 1)"
    using business_rules_well_keyed [of cfg e df] business_score_bounds [of e cfg df]
    by blast
  moreover have "rule_name r = Some n \<and> rule_column r = Some c \<and> rule_check r = Some t \<and>
     c \<in> set (columns df) \<and> check_rule e df r c t = Inl err' \<longrightarrow>
       rules_loop e df (r # rest) (rr, tot) =
         rules_loop e df rest (rr @ [RuleError n (Raised err')], tot)"
    by simp
  moreover have "rule_name r' = Some n' \<and> rule_column r' = Some c' \<and>
     rule_check r' = Some t' \<and> c' \<notin> set (columns df) \<longrightarrow>
       rules_loop e df (r' # rest) (rr, tot) =
         rules_loop e df rest (rr @ [RuleError n' (ColumnNotFound c')], tot)"
    by simp
  moreover have "series_to_datetime e (col_values df date_col) = Inl err'' \<longrightarrow>
       date_loop e df (date_col # cols) fc = date_loop e df cols fc"
    by simp
  ultimately show ?thesis by blast
qed

theorem errors_contained_witness:
  "validate_dataframe env_schema_raises df_tx ''tx'' =
     Inl (OtherError ''schema file unreadable'') \<and>
   validate_schema env_schema_raises df_tx ''tx'' =
     \<lparr>passed = False, score = 0, check_type = ''schema_validation'',
      error = Some (OtherError ''schema file unreadable''), details = NoDetails\<rparr> \<and>
   list_all well_keyed (configured_rules (config None [amount_no_value, ghost_rule])) \<and>
   validate_business_rules env_schema_raises (config None [amount_no_value, ghost_rule])
       df_tx =
     Inr \<lparr>passed = False, score = 0, check_type = ''business_rules'', error = None,
          details = RuleResults
            [RuleError ''amount_min'' (Raised (KeyError ''value'')),
             RuleError ''ghost_not_null'' (ColumnNotFound ''ghost'')]\<rparr> \<and>
   check_rule env_schema_raises df_tx amount_no_value ''amount'' ''greater_than'' =
     Inl (KeyError ''value'') \<and>
   rules_loop env_schema_raises df_tx [amount_no_value] ([], 0) =
     Inr ([RuleError ''amount_min'' (Raised (KeyError ''value''))], 0) \<and>
   rules_loop env_schema_raises df_tx [ghost_rule] ([], 0) =
     Inr ([RuleError ''ghost_not_null'' (ColumnNotFound ''ghost'')], 0) \<and>
   series_to_datetime env_schema_raises (col_values df_tx ''txn_date'') = Inl ParserError \<and>
   date_loop env_schema_raises df_tx [''txn_date''] [] = []"
proof -
  let ?cfg = "config None [amount_no_value, ghost_rule]"
  have h1: "list_all well_keyed (configured_rules ?cfg)"
    by (simp add: configured_rules_def config_def well_keyed_def amount_no_value_def
        ghost_rule_def mk_rule_def)
  have a1: "validate_dataframe env_schema_raises df_tx ''tx'' =
      Inl (OtherError ''schema file unreadable'')"
    by (simp add: env_schema_raises_def)
  have a2: "rule_name amount_no_value = Some ''amount_min'' \<and>
      rule_column amount_no_value = Some ''amount'' \<and>
      rule_check amount_no_value = Some ''greater_than'' \<and>
      ''amount'' \<in> set (columns df_tx) \<and>
      check_rule env_schema_raises df_tx amount_no_value ''amount'' ''greater_than'' =
        Inl (KeyError ''value'')"
    by (simp add: amount_no_value_def mk_rule_def df_tx_def check_rule_def)
  have a3: "rule_name ghost_rule = Some ''ghost_not_null'' \<and>
      rule_column ghost_rule = Some ''ghost'' \<and>
      rule_check ghost_rule = Some ''not_null'' \<and>
      ''ghost'' \<notin> set (columns df_tx)"
    by (simp add: ghost_rule_def mk_rule_def df_tx_def)
  have a4: "series_to_datetime env_schema_raises (col_values df_tx ''txn_date'') =
      Inl ParserError"
    by (simp add: col_values_def df_tx_def row_tx_def strict_datetime_def
        env_schema_raises_def env_ok_def)
  have b: "validate_business_rules env_schema_raises ?cfg df_tx =
     Inr \<lparr>passed = False, score = 0, check_type = ''business_rules'', error = None,
          details = RuleResults
            [RuleError ''amount_min'' (Raised (KeyError ''value'')),
             RuleError ''ghost_not_null'' (ColumnNotFound ''ghost'')]\<rparr>"
    by (simp add: validate_business_rules_def configured_rules_def config_def
        amount_no_value_def ghost_rule_def mk_rule_def df_tx_def check_rule_def)
  from errors_contained [where e = env_schema_raises and df = df_tx and cfg = ?cfg and
      src = "''tx''" and
      err = "OtherError ''schema file unreadable''" and r = amount_no_value and
      n = "''amount_min''" and c = "''amount''" and t = "''greater_than''" and
      err' = "KeyError ''value''" and r' = ghost_rule and n' = "''ghost_not_null''" and
      c' = "''ghost''" and t' = "''not_null''" and rest = "[]" and rr = "[]" and tot = 0 and
      date_col = "''txn_date''" and err'' = ParserError and cols = "[]" and fc = "[]"]
    h1 a1 a2 a3 a4 b
  show ?thesis by simp
qed

theorem missing_rule_name_counterexample:
  "validate_data env_ok (config None [nameless_rule]) (amounts [IntV 10, IntV 20]) ''tx'' =
     Inl (KeyError ''name'')"
  by (simp add: validate_data_def validate_business_rules_def configured_rules_def
      config_def nameless_rule_def amount_not_null_def mk_rule_def Let_def)

text \<open>
  C5, as the code has it. The claim as stated fails: one text value in the column makes
  the comparison raise \<^verbatim>\<open>TypeError\<close>, which the rule's \<^verbatim>\<open>try\<close> catches, so the rule
  gets an error entry and adds 0 instead of the fraction (the counterexample). What
  holds for a \<^verbatim>\<open>greater_than\<close> rule with a value, over an existing column: if every
  value of the column is a number or null, the rule's score is the fraction of rows
  strictly greater than the value (a null fails the predicate); otherwise the rule is
  recorded as failed with the error and nothing is raised out of the check.
\<close>

theorem greater_than_rule:
  assumes "rule_name r = Some n" and "rule_column r = Some c"
    and "rule_check r = Some ''greater_than''" and "rule_value r = Some v"
    and "c \<in> set (columns df)"
  shows "rules_loop e df [r] (rr, tot) =
     (if list_all numeric_or_null (col_values df c)
      then Inr (rr @ [RuleScore n (spec_greater_than_score df c v \<ge> 0.95)
                        (spec_greater_than_score df c v)
                        (length (filter (strictly_greater v) (col_values df c))) (len df)],
                tot + spec_greater_than_score df c v)
      else Inr (rr @ [RuleError n (Raised TypeError)], tot))"
  using assms by (simp add: check_rule_greater_than)

theorem greater_than_rule_witness:
  "rules_loop env_ok (amounts [IntV 10, Null, FloatV 2, IntV 7]) [amount_positive] ([], 0) =
     Inr ([RuleScore ''amount_positive'' False (1/2) 2 4], 1/2) \<and>
   rules_loop env_ok (amounts [IntV 10, StrV ''abc'']) [amount_positive] ([], 0) =
     Inr ([RuleError ''amount_positive'' (Raised TypeError)], 0)"
proof -
  have k: "rule_name amount_positive = Some ''amount_positive''"
    "rule_column amount_positive = Some ''amount''"
    "rule_check amount_positive = Some ''greater_than''"
    "rule_value amount_positive = Some 5"
    by (simp_all add: amount_positive_def mk_rule_def)
  show ?thesis
    using greater_than_rule [where e = env_ok and rr = "[]" and tot = 0 and
        df = "amounts [IntV 10, Null, FloatV 2, IntV 7]", OF k]
      greater_than_rule [where e = env_ok and rr = "[]" and tot = 0 and
        df = "amounts [IntV 10, StrV ''abc'']", OF k]
    by (simp add: amounts_simps spec_greater_than_score_def fraction_def
        del: rules_loop.simps)
qed

theorem greater_than_non_numeric_counterexample:
  "spec_greater_than_score (amounts [IntV 10, StrV ''abc'']) ''amount'' 5 = 1/2 \<and>
   check_rule env_ok (amounts [IntV 10, StrV ''abc'']) amount_positive ''amount''
     ''greater_than'' = Inl TypeError \<and>
   validate_business_rules env_ok (config None [amount_positive])
     (amounts [IntV 10, StrV ''abc'']) =
     Inr \<lparr>passed = False, score = 0, check_type = ''business_rules'', error = None,
          details = RuleResults [RuleError ''amount_positive'' (Raised TypeError)]\<rparr>"
  by (simp add: spec_greater_than_score_def fraction_def amounts_simps
      validate_business_rules_def configured_rules_def config_def amount_positive_def
      mk_rule_def check_rule_def)

text \<open>
  C9. The completeness score is the mean over the business columns of each column's
  non-null ratio (1 when there is no business column), and \<open>passed\<close> is
  \<open>score \<ge> 0.9\<close>. In particular every dataset whose business columns all have the
  ratio 1 scores 1; a dataset with at least one row and no null in its business columns
  is one of them.
\<close>

theorem completeness_is_mean:
  "score (validate_completeness df) =
     (if business_columns df = [] then 1
      else mean (map (non_null_ratio df) (business_columns df))) \<and>
   passed (validate_completeness df) = (score (validate_completeness df) \<ge> 0.9) \<and>
   (list_all (\<lambda>column. non_null_ratio df column = 1) (business_columns df) \<longrightarrow>
      score (validate_completeness df) = 1) \<and>
   (rows df \<noteq> [] \<and> all_non_null df \<longrightarrow>
      list_all (\<lambda>column. non_null_ratio df column = 1) (business_columns df))"
proof (intro conjI impI)
  show "score (validate_completeness df) =
     (if business_columns df = [] then 1
      else mean (map (non_null_ratio df) (business_columns df)))"
    by (simp add: completeness_score mean_def)
  show "passed (validate_completeness df) = (score (validate_completeness df) \<ge> 0.9)"
    by (rule completeness_passed)
next
  assume "list_all (\<lambda>column. non_null_ratio df column = 1) (business_columns df)"
  then have "\<forall>column \<in> set (business_columns df). non_null_ratio df column = 1"
    by (simp add: list_all_iff)
  then have "sum_list (map (non_null_ratio df) (business_columns df)) =
      real (length (business_columns df))"
    by (rule sum_list_all_one)
  then show "score (validate_completeness df) = 1"
    by (simp add: completeness_score)
next
  assume "rows df \<noteq> [] \<and> all_non_null df"
  then show "list_all (\<lambda>column. non_null_ratio df column = 1) (business_columns df)"
    by (auto simp: all_non_null_def list_all_iff intro!: ratio_all_non_null)
qed

theorem completeness_is_mean_witness:
  "list_all (\<lambda>column. non_null_ratio (amounts [IntV 10, IntV 20]) column = 1)
     (business_columns (amounts [IntV 10, IntV 20])) \<and>
   rows (amounts [IntV 10, IntV 20]) \<noteq> [] \<and> all_non_null (amounts [IntV 10, IntV 20]) \<and>
   score (validate_completeness (amounts [IntV 10, IntV 20])) = 1 \<and>
   passed (validate_completeness (amounts [IntV 10, IntV 20])) = True \<and>
   score (validate_completeness (amounts [IntV 10, Null])) = mean [1/2] \<and>
   passed (validate_completeness (amounts [IntV 10, Null])) = False"
proof -
  have h: "rows (amounts [IntV 10, IntV 20]) \<noteq> [] \<and> all_non_null (amounts [IntV 10, IntV 20])"
    by (simp add: all_non_null_def amounts_business_columns amounts_simps)
  have r: "non_null_ratio (amounts [IntV 10, Null]) ''amount'' = 1/2"
    by (simp add: non_null_ratio_def amounts_simps)
  from completeness_is_mean [of "amounts [IntV 10, IntV 20]"] h
  have l: "list_all (\<lambda>column. non_null_ratio (amounts [IntV 10, IntV 20]) column = 1)
     (business_columns (amounts [IntV 10, IntV 20]))"
    by blast
  from completeness_is_mean [of "amounts [IntV 10, IntV 20]"]
    completeness_is_mean [of "amounts [IntV 10, Null]"] h r l
  show ?thesis
    by (simp add: amounts_business_columns mean_def)
qed

text \<open>
  C4, as the code has it. The claim as stated fails for the business rules: a rule is
  evaluated on the column it names, and nothing keeps it from naming a metadata column
  (the counterexample: a \<^verbatim>\<open>not_null\<close> rule on \<^verbatim>\<open>_m\<close>). What holds: two datasets
  that differ only in the values of columns whose name starts with an underscore get
  the same completeness result and the same consistency result, and the same business
  rule result whenever no configured rule names such a column; with a rule that names
  one, there are such datasets with different business rule results.
\<close>

theorem metadata_columns_excluded:
  assumes "same_business_data df df'"
  shows "validate_completeness df' = validate_completeness df \<and>
         validate_consistency df' = validate_consistency df \<and>
         (rules_on_business_columns (configured_rules cfg) \<longrightarrow>
            validate_business_rules e cfg df' = validate_business_rules e cfg df) \<and>
         (\<exists>d d' e' cfg'. same_business_data d d' \<and>
            \<not> rules_on_business_columns (configured_rules cfg') \<and>
            validate_business_rules e' cfg' d' \<noteq> validate_business_rules e' cfg' d)"
proof (intro conjI impI)
  show "\<exists>d d' e' cfg'. same_business_data d d' \<and>
            \<not> rules_on_business_columns (configured_rules cfg') \<and>
            validate_business_rules e' cfg' d' \<noteq> validate_business_rules e' cfg' d"
    using meta_rule_changes_result df_meta_same [of Null Null "IntV 1" "IntV 1"]
    by blast
next
  from assms have len: "len df' = len df" and cols: "columns df' = columns df"
    by (simp_all add: same_business_data_def)
  note bc = sbd_business_columns [OF assms]
  have vals: "\<forall>c \<in> set (business_columns df). col_values df' c = col_values df c"
    using sbd_business_values [OF assms] by blast
  have cl: "completeness_loop df' (business_columns df) ([], 0) =
        completeness_loop df (business_columns df) ([], 0)"
    using vals len by (rule completeness_loop_cong)
  show "validate_completeness df' = validate_completeness df"
    unfolding validate_completeness_def Let_def bc cl by (rule refl)
  have "map (\<lambda>r. map r (business_columns df)) (rows df') =
        map (\<lambda>r. map r (business_columns df)) (rows df)"
    using vals len by (rule projection_cong)
  then have d: "duplicated df' (business_columns df) = duplicated df (business_columns df)"
    by (simp add: duplicated_def cols sbd_rows_empty [OF assms])
  have t: "type_loop df' (columns df) (True, []) = type_loop df (columns df) (True, [])"
    using assms by (intro type_loop_cong) (simp add: same_business_data_def)
  have cr: "consistency_result df' dups = consistency_result df dups" for dups
    unfolding consistency_result_def Let_def t cols len by (rule refl)
  show "validate_consistency df' = validate_consistency df"
    unfolding validate_consistency_def bc d cr by (rule refl)
  assume "rules_on_business_columns (configured_rules cfg)"
  then have l: "rules_loop e df' (configured_rules cfg) ([], 0) =
             rules_loop e df (configured_rules cfg) ([], 0)"
    by (rule rules_loop_cong [OF assms])
  show "validate_business_rules e cfg df' = validate_business_rules e cfg df"
    unfolding validate_business_rules_def Let_def l by (rule refl)
qed

theorem metadata_columns_excluded_witness:
  "same_business_data (df_meta Null Null) (df_meta (IntV 1) (StrV ''x'')) \<and>
   rules_on_business_columns (configured_rules (config None [amount_not_null])) \<and>
   validate_completeness (df_meta (IntV 1) (StrV ''x'')) =
     validate_completeness (df_meta Null Null) \<and>
   validate_consistency (df_meta (IntV 1) (StrV ''x'')) =
     validate_consistency (df_meta Null Null) \<and>
   validate_business_rules env_ok (config None [amount_not_null])
       (df_meta (IntV 1) (StrV ''x'')) =
     validate_business_rules env_ok (config None [amount_not_null]) (df_meta Null Null) \<and>
   score (validate_completeness (df_meta Null Null)) = 1"
proof -
  have h: "rules_on_business_columns (configured_rules (config None [amount_not_null]))"
    by (simp add: rules_on_business_columns_def configured_rules_def config_def
        amount_not_null_def mk_rule_def)
  have s: "score (validate_completeness (df_meta Null Null)) = 1"
    by (simp add: completeness_score business_columns_def df_meta_simps non_null_ratio_def)
  from metadata_columns_excluded [where df = "df_meta Null Null" and
      df' = "df_meta (IntV 1) (StrV ''x'')" and cfg = "config None [amount_not_null]" and
      e = env_ok, OF df_meta_same] h s df_meta_same
  show ?thesis by simp
qed

theorem metadata_rule_counterexample:
  "same_business_data (df_meta Null Null) (df_meta (IntV 1) (IntV 1)) \<and>
   validate_business_rules env_ok (config None [meta_not_null]) (df_meta Null Null) =
     Inr \<lparr>passed = False, score = 0, check_type = ''business_rules'', error = None,
          details = RuleResults [RuleScore ''meta_not_null'' False 0 0 2]\<rparr> \<and>
   validate_business_rules env_ok (config None [meta_not_null]) (df_meta (IntV 1) (IntV 1)) =
     Inr \<lparr>passed = True, score = 1, check_type = ''business_rules'', error = None,
          details = RuleResults [RuleScore ''meta_not_null'' True 1 2 2]\<rparr>"
  by (simp add: df_meta_same validate_business_rules_def configured_rules_def config_def
      meta_not_null_def mk_rule_def check_rule_def df_meta_simps count_true_def notna_def
      fraction_def)

end
